theory Spec2Isabelle
  imports Main "HOL-Library.Word" "HOL-Library.AList"
begin

section \<open>Frame codec (protocol/ChunkProtocol.ts)\<close>

text \<open>
  An \<open>ArrayBuffer\<close> is a list of bytes. A \<open>Uint8Array\<close> is a view: it keeps a reference to
  its underlying buffer together with an offset and a length, and its elements are the
  bytes of that window. JavaScript numbers that hold sizes, indices and counts are
  modelled as natural numbers.
\<close>

type_synonym byte = "8 word"
type_synonym ArrayBuffer = "byte list"

record Uint8Array =
  buffer :: ArrayBuffer
  byteOffset :: nat
  byteLength :: nat

definition u8_bytes :: "Uint8Array \<Rightarrow> byte list" where
  "u8_bytes v = take (byteLength v) (drop (byteOffset v) (buffer v))"

text \<open>\<open>new Uint8Array(buffer)\<close>: the view over a whole buffer.\<close>

definition Uint8Array_of :: "ArrayBuffer \<Rightarrow> Uint8Array" where
  "Uint8Array_of b = \<lparr>buffer = b, byteOffset = 0, byteLength = length b\<rparr>"

definition CHUNK_SIZE :: nat where
  "CHUNK_SIZE = 64 * 1024"

definition HEADER_SIZE :: nat where
  "HEADER_SIZE = 8"

datatype js_error =
    RangeError
  | PayloadLengthMismatch nat nat
  | InvalidStateError
  | WindowFull
  | DataChannelNotReady
  | TransferCancelled

text \<open>
  \<open>DataView.setUint32(offset, value, false)\<close> stores \<open>value\<close> modulo \<open>2^32\<close> as four
  bytes, most significant first; \<open>getUint32(offset, false)\<close> reads them back and throws a
  \<open>RangeError\<close> when fewer than four bytes are left at the offset.
\<close>

definition setUint32_be :: "nat \<Rightarrow> byte list" where
  "setUint32_be n =
     (let w = n mod 2 ^ 32
      in [of_nat (w div 2 ^ 24), of_nat (w div 2 ^ 16 mod 256),
          of_nat (w div 2 ^ 8 mod 256), of_nat (w mod 256)])"

definition getUint32_be :: "ArrayBuffer \<Rightarrow> nat \<Rightarrow> js_error + nat" where
  "getUint32_be b off =
     (if off + 4 \<le> length b
      then Inr (unat (b ! off) * 2 ^ 24 + unat (b ! (off + 1)) * 2 ^ 16
                + unat (b ! (off + 2)) * 2 ^ 8 + unat (b ! (off + 3)))
      else Inl RangeError)"

definition encodeChunk :: "nat \<Rightarrow> Uint8Array \<Rightarrow> ArrayBuffer" where
  "encodeChunk chunkIndex payload =
     setUint32_be chunkIndex @ setUint32_be (byteLength payload) @ u8_bytes payload"

record DecodedChunk =
  chunkIndex :: nat
  payload :: Uint8Array

definition decodeChunk :: "ArrayBuffer \<Rightarrow> js_error + DecodedChunk" where
  "decodeChunk b =
     (case getUint32_be b 0 of
        Inl e \<Rightarrow> Inl e
      | Inr idx \<Rightarrow>
          (case getUint32_be b 4 of
             Inl e \<Rightarrow> Inl e
           | Inr payloadLength \<Rightarrow>
               if payloadLength \<noteq> length b - HEADER_SIZE
               then Inl (PayloadLengthMismatch payloadLength (length b - HEADER_SIZE))
               else Inr \<lparr>chunkIndex = idx,
                         payload = \<lparr>buffer = b, byteOffset = HEADER_SIZE,
                                    byteLength = payloadLength\<rparr>\<rparr>))"

definition calculateTotalChunks :: "nat \<Rightarrow> nat" where
  "calculateTotalChunks fileSize = (fileSize + CHUNK_SIZE - 1) div CHUNK_SIZE"

section \<open>Sliding window (protocol/FlowControl.ts, class SlidingWindow)\<close>

record FlowControlConfig =
  maxOutstandingBytes :: nat
  chunkSize :: nat

definition DEFAULT_FLOW_CONFIG :: FlowControlConfig where
  "DEFAULT_FLOW_CONFIG = \<lparr>maxOutstandingBytes = 8 * 1024 * 1024, chunkSize = CHUNK_SIZE\<rparr>"

text \<open>
  The constructor takes a partial configuration and fills the missing fields from the
  default: \<open>{...DEFAULT_CONFIG, ...config}\<close>.
\<close>

definition merge_flow_config :: "nat option \<Rightarrow> nat option \<Rightarrow> FlowControlConfig" where
  "merge_flow_config mob cs =
     \<lparr>maxOutstandingBytes =
        (case mob of None \<Rightarrow> maxOutstandingBytes DEFAULT_FLOW_CONFIG | Some b \<Rightarrow> b),
      chunkSize = (case cs of None \<Rightarrow> chunkSize DEFAULT_FLOW_CONFIG | Some c \<Rightarrow> c)\<rparr>"

text \<open>
  \<open>Math.floor(a / b)\<close> on non-negative integers. JavaScript division does not fail on a
  zero divisor: it yields \<open>Infinity\<close>, or \<open>NaN\<close> for \<open>0 / 0\<close>. Every comparison with
  \<open>NaN\<close> is false.
\<close>

datatype js_number = Finite nat | PosInfinity | NaN

definition floor_div :: "nat \<Rightarrow> nat \<Rightarrow> js_number" where
  "floor_div a b = (if b = 0 then (if a = 0 then NaN else PosInfinity) else Finite (a div b))"

fun num_less :: "nat \<Rightarrow> js_number \<Rightarrow> bool" where
  "num_less n (Finite m) = (n < m)"
| "num_less n PosInfinity = True"
| "num_less n NaN = False"

fun num_ge :: "nat \<Rightarrow> js_number \<Rightarrow> bool" where
  "num_ge n (Finite m) = (n \<ge> m)"
| "num_ge n PosInfinity = False"
| "num_ge n NaN = False"

text \<open>
  A JavaScript \<open>Map\<close> is an association list in insertion order: \<open>set\<close> on a present key
  replaces the value in place (\<open>AList.update\<close>), \<open>delete\<close> removes the key
  (\<open>AList.delete\<close>), and \<open>size\<close> counts the distinct keys.
\<close>

definition map_size :: "('k \<times> 'v) list \<Rightarrow> nat" where
  "map_size al = length (remdups (map fst al))"

definition map_has :: "('k \<times> 'v) list \<Rightarrow> 'k \<Rightarrow> bool" where
  "map_has al k = (map_of al k \<noteq> None)"

text \<open>
  A waiter is the \<open>resolve\<close> callback of the promise that \<open>waitForSpace\<close> returned; it is
  identified by a number. Operations that call waiters return the callbacks they
  called, in call order, beside the new window.
\<close>

type_synonym waiter = nat

record SlidingWindow =
  config :: FlowControlConfig
  maxChunksInFlight :: js_number
  outstandingChunks :: "(nat \<times> nat) list"
  waitQueue :: "waiter list"
  paused :: bool

definition new_SlidingWindow :: "FlowControlConfig \<Rightarrow> SlidingWindow" where
  "new_SlidingWindow cfg =
     \<lparr>config = cfg,
      maxChunksInFlight = floor_div (maxOutstandingBytes cfg) (chunkSize cfg),
      outstandingChunks = [], waitQueue = [], paused = False\<rparr>"

definition outstandingBytes :: "SlidingWindow \<Rightarrow> nat" where
  "outstandingBytes w = map_size (outstandingChunks w) * chunkSize (config w)"

definition canSend :: "SlidingWindow \<Rightarrow> bool" where
  "canSend w = (\<not> paused w \<and> num_less (map_size (outstandingChunks w)) (maxChunksInFlight w))"

text \<open>\<open>markSent(chunkIndex)\<close> at time \<open>now\<close> (the value of \<open>Date.now()\<close>).\<close>

definition markSent :: "SlidingWindow \<Rightarrow> nat \<Rightarrow> nat \<Rightarrow> js_error + SlidingWindow" where
  "markSent w idx now =
     (if num_ge (map_size (outstandingChunks w)) (maxChunksInFlight w)
      then Inl WindowFull
      else Inr (w\<lparr>outstandingChunks := AList.update idx now (outstandingChunks w)\<rparr>))"

text \<open>
  \<open>notifyWaiters\<close>: while the queue is not empty and \<open>canSend()\<close> holds, shift the first
  waiter and call it. Calling a waiter resolves a promise; the code waiting on it runs
  later, so the window does not change inside the loop.
\<close>

fun notifyLoop :: "SlidingWindow \<Rightarrow> waiter list \<Rightarrow> waiter list \<Rightarrow> SlidingWindow \<times> waiter list" where
  "notifyLoop w [] called = (w\<lparr>waitQueue := []\<rparr>, called)"
| "notifyLoop w (x # q) called =
     (if canSend (w\<lparr>waitQueue := x # q\<rparr>)
      then notifyLoop w q (called @ [x])
      else (w\<lparr>waitQueue := x # q\<rparr>, called))"

definition notifyWaiters :: "SlidingWindow \<Rightarrow> SlidingWindow \<times> waiter list" where
  "notifyWaiters w = notifyLoop w (waitQueue w) []"

definition onAck :: "SlidingWindow \<Rightarrow> nat \<Rightarrow> SlidingWindow \<times> waiter list" where
  "onAck w idx = notifyWaiters (w\<lparr>outstandingChunks := AList.delete idx (outstandingChunks w)\<rparr>)"

definition onAckBatch :: "SlidingWindow \<Rightarrow> nat list \<Rightarrow> SlidingWindow \<times> waiter list" where
  "onAckBatch w idxs =
     notifyWaiters
       (w\<lparr>outstandingChunks := foldl (\<lambda>m idx. AList.delete idx m) (outstandingChunks w) idxs\<rparr>)"

definition getChunksForRetransmit :: "SlidingWindow \<Rightarrow> nat list \<Rightarrow> nat list" where
  "getChunksForRetransmit w missingChunks =
     filter (\<lambda>idx. map_has (outstandingChunks w) idx) missingChunks"

definition pause :: "SlidingWindow \<Rightarrow> SlidingWindow" where
  "pause w = w\<lparr>paused := True\<rparr>"

definition resume :: "SlidingWindow \<Rightarrow> SlidingWindow \<times> waiter list" where
  "resume w = notifyWaiters (w\<lparr>paused := False\<rparr>)"

text \<open>
  \<open>waitForSpace\<close> returns a promise. The result says whether the promise is already
  resolved (\<open>True\<close>) or its \<open>resolve\<close> callback \<open>wid\<close> was queued (\<open>False\<close>).
\<close>

definition waitForSpace :: "SlidingWindow \<Rightarrow> waiter \<Rightarrow> SlidingWindow \<times> bool" where
  "waitForSpace w wid =
     (if canSend w then (w, True) else (w\<lparr>waitQueue := waitQueue w @ [wid]\<rparr>, False))"

text \<open>
  \<open>clear\<close>: the \<open>forEach\<close> over the wait queue runs a callback with an empty body for
  every waiter, so it contributes no call for any of them; the queue is then replaced
  by an empty array.
\<close>

definition clear :: "SlidingWindow \<Rightarrow> SlidingWindow \<times> waiter list" where
  "clear w =
     (w\<lparr>outstandingChunks := [], paused := False, waitQueue := []\<rparr>,
      concat (map (\<lambda>waiter. []) (waitQueue w)))"

record WindowStats =
  stat_outstandingChunks :: nat
  stat_outstandingBytes :: nat
  stat_paused :: bool

definition getStats :: "SlidingWindow \<Rightarrow> WindowStats" where
  "getStats w =
     \<lparr>stat_outstandingChunks = map_size (outstandingChunks w),
      stat_outstandingBytes = outstandingBytes w,
      stat_paused = paused w\<rparr>"

text \<open>
  Sequences of window operations. A \<open>MarkSent\<close> step is admitted only in a state where
  \<open>canSend()\<close> is true, as the callers are required to do; the run of a sequence that
  breaks this rule is \<open>None\<close>.
\<close>

datatype window_op =
    MarkSent nat nat
  | OnAck nat
  | OnAckBatch "nat list"
  | Pause
  | Resume
  | Clear
  | WaitForSpace waiter

fun window_step :: "SlidingWindow \<Rightarrow> window_op \<Rightarrow> SlidingWindow option" where
  "window_step w (MarkSent idx now) =
     (if canSend w
      then (case markSent w idx now of Inl e \<Rightarrow> None | Inr w' \<Rightarrow> Some w')
      else None)"
| "window_step w (OnAck idx) = Some (fst (onAck w idx))"
| "window_step w (OnAckBatch idxs) = Some (fst (onAckBatch w idxs))"
| "window_step w Pause = Some (pause w)"
| "window_step w Resume = Some (fst (resume w))"
| "window_step w Clear = Some (fst (clear w))"
| "window_step w (WaitForSpace wid) = Some (fst (waitForSpace w wid))"

fun window_run :: "SlidingWindow \<Rightarrow> window_op list \<Rightarrow> SlidingWindow option" where
  "window_run w [] = Some w"
| "window_run w (x # xs) =
     (case window_step w x of None \<Rightarrow> None | Some w' \<Rightarrow> window_run w' xs)"

text \<open>
  The invariant of the window: the bound on chunks in flight is the one the constructor
  derived from the configuration, and the number of outstanding chunks fits under it.
\<close>

fun fits :: "nat \<Rightarrow> js_number \<Rightarrow> bool" where
  "fits n (Finite m) = (n \<le> m)"
| "fits n PosInfinity = True"
| "fits n NaN = True"

definition window_ok :: "SlidingWindow \<Rightarrow> bool" where
  "window_ok w =
     (maxChunksInFlight w = floor_div (maxOutstandingBytes (config w)) (chunkSize (config w))
      \<and> fits (map_size (outstandingChunks w))
           (floor_div (maxOutstandingBytes (config w)) (chunkSize (config w))))"

section \<open>Received-ranges tracker (protocol/FlowControl.ts, class ReceivedRanges)\<close>

text \<open>
  A JavaScript \<open>Set\<close> of numbers is the list of its members in insertion order;
  \<open>add\<close> leaves the set alone when the member is present.
\<close>

definition set_add :: "nat list \<Rightarrow> nat \<Rightarrow> nat list" where
  "set_add xs x = (if x \<in> set xs then xs else xs @ [x])"

record ReceivedRanges =
  ranges :: "(nat \<times> nat) list"
  receivedSet :: "nat list"
  totalChunks :: nat

definition new_ReceivedRanges :: "nat \<Rightarrow> ReceivedRanges" where
  "new_ReceivedRanges n = \<lparr>ranges = [], receivedSet = [], totalChunks = n\<rparr>"

text \<open>
  The loop of \<open>updateRanges\<close> over the sorted members: \<open>rangeStart\<close> and \<open>rangeEnd\<close> are
  the range being extended, the list is what is left to visit.
\<close>

fun compressRanges :: "nat \<Rightarrow> nat \<Rightarrow> nat list \<Rightarrow> (nat \<times> nat) list" where
  "compressRanges rangeStart rangeEnd [] = [(rangeStart, rangeEnd)]"
| "compressRanges rangeStart rangeEnd (x # xs) =
     (if x = rangeEnd + 1 then compressRanges rangeStart x xs
      else (rangeStart, rangeEnd) # compressRanges x x xs)"

definition updateRanges :: "ReceivedRanges \<Rightarrow> ReceivedRanges" where
  "updateRanges rr =
     (case sort (receivedSet rr) of
        [] \<Rightarrow> rr\<lparr>ranges := []\<rparr>
      | x # xs \<Rightarrow> rr\<lparr>ranges := compressRanges x x xs\<rparr>)"

definition hasChunk :: "ReceivedRanges \<Rightarrow> nat \<Rightarrow> bool" where
  "hasChunk rr idx = (idx \<in> set (receivedSet rr))"

definition markReceived :: "ReceivedRanges \<Rightarrow> nat \<Rightarrow> ReceivedRanges" where
  "markReceived rr idx =
     (if idx \<in> set (receivedSet rr) then rr
      else updateRanges (rr\<lparr>receivedSet := set_add (receivedSet rr) idx\<rparr>))"

definition getMissingChunks :: "ReceivedRanges \<Rightarrow> nat list" where
  "getMissingChunks rr = filter (\<lambda>i. i \<notin> set (receivedSet rr)) [0..<totalChunks rr]"

definition getRanges :: "ReceivedRanges \<Rightarrow> (nat \<times> nat) list" where
  "getRanges rr = ranges rr"

definition loadFromRanges :: "ReceivedRanges \<Rightarrow> (nat \<times> nat) list \<Rightarrow> ReceivedRanges" where
  "loadFromRanges rr rs =
     updateRanges
       (rr\<lparr>receivedSet :=
             foldl (\<lambda>acc (start, end). foldl set_add acc [start..<end + 1]) (receivedSet rr) rs\<rparr>)"

definition isComplete :: "ReceivedRanges \<Rightarrow> bool" where
  "isComplete rr = (length (receivedSet rr) \<ge> totalChunks rr)"

section \<open>Messages and the data channel\<close>

record FileMetadata =
  meta_name :: string
  meta_size :: nat
  meta_mimeType :: string
  meta_totalChunks :: nat

datatype control_action = Ready | PauseAction | ResumeAction

text \<open>
  The control messages of the protocol. On the wire they are JSON text; the model keeps
  the record that \<open>JSON.stringify\<close> writes and \<open>JSON.parse\<close> reads back.
\<close>

datatype ProtocolMessage =
    FileMeta FileMetadata
  | Ack nat
  | Nack "nat list"
  | TransferComplete bool nat
  | ReceivedRangesMsg "(nat \<times> nat) list"
  | Control control_action

datatype frame = TextFrame ProtocolMessage | BinaryFrame ArrayBuffer

text \<open>
  What a \<open>message\<close> event carries: an \<open>ArrayBuffer\<close>, a string (\<open>None\<close> when
  \<open>JSON.parse\<close> rejects it), or anything else.
\<close>

datatype event_data = BinaryData ArrayBuffer | StringData "ProtocolMessage option" | OtherData

datatype ready_state = Connecting | Open | Closing | Closed

text \<open>
  The data channel is the environment's object: \<open>sent\<close> lists the frames handed to
  \<open>send\<close>, which throws \<open>InvalidStateError\<close> unless the channel is open.
\<close>

record RTCDataChannel =
  readyState :: ready_state
  sent :: "frame list"
  bufferedAmount :: nat
  bufferedAmountLowThreshold :: nat

definition channel_send :: "RTCDataChannel \<Rightarrow> frame \<Rightarrow> js_error + RTCDataChannel" where
  "channel_send ch f =
     (if readyState ch = Open then Inr (ch\<lparr>sent := sent ch @ [f]\<rparr>) else Inl InvalidStateError)"

datatype TransferStatus =
    Idle | ConnectingStatus | WaitingForPeer | Transferring | PausedStatus | Completed | Failed

section \<open>Receiver (transport/Receiver.ts)\<close>

text \<open>
  The seekable sink of the File System Access API. \<open>written\<close> lists the writes in order,
  each with the position that the preceding \<open>seek\<close> set and the bytes passed to
  \<open>write\<close>; \<open>stream_closed\<close> holds once \<open>close()\<close> was called. The \<open>seek\<close> and the
  \<open>write\<close> of one chunk are taken to be done before the next message is handled.
\<close>

record FileSystemWritableFileStream =
  written :: "(nat \<times> byte list) list"
  stream_closed :: bool

record ReceiverConfig =
  ackBatchSize :: nat
  nackTimeoutMs :: nat

definition DEFAULT_RECEIVER_CONFIG :: ReceiverConfig where
  "DEFAULT_RECEIVER_CONFIG = \<lparr>ackBatchSize = 4, nackTimeoutMs = 2000\<rparr>"

text \<open>
  The fields of the class. The progress callback is kept as the list of statuses it was
  called with (\<open>None\<close> when no callback is installed); the speed calculator, which only
  feeds the figures shown with a progress report, is left out. \<open>downloaded\<close> is the blob
  that \<open>assembleAndDownload\<close> hands to the browser.
\<close>

record Receiver =
  rx_config :: ReceiverConfig
  rx_dataChannel :: "RTCDataChannel option"
  rx_onProgress :: "TransferStatus list option"
  fileMeta :: "FileMetadata option"
  receivedRanges :: "ReceivedRanges option"
  chunks :: "(nat \<times> Uint8Array) list"
  receivedBytes :: nat
  rx_startTime :: "nat option"
  writableStream :: "FileSystemWritableFileStream option"
  pendingAcks :: "nat list"
  nackTimer :: bool
  downloaded :: "byte list option"

definition new_Receiver :: "ReceiverConfig \<Rightarrow> Receiver" where
  "new_Receiver cfg =
     \<lparr>rx_config = cfg, rx_dataChannel = None, rx_onProgress = None, fileMeta = None,
      receivedRanges = None, chunks = [], receivedBytes = 0, rx_startTime = None,
      writableStream = None, pendingAcks = [], nackTimer = False, downloaded = None\<rparr>"

definition rx_initialize :: "Receiver \<Rightarrow> RTCDataChannel \<Rightarrow> Receiver" where
  "rx_initialize r ch = r\<lparr>rx_dataChannel := Some ch, rx_onProgress := Some []\<rparr>"

definition rx_updateProgress :: "Receiver \<Rightarrow> TransferStatus \<Rightarrow> Receiver" where
  "rx_updateProgress r status =
     (case rx_onProgress r of
        None \<Rightarrow> r
      | Some reports \<Rightarrow> r\<lparr>rx_onProgress := Some (reports @ [status])\<rparr>)"

text \<open>
  \<open>writeChunkToDisk\<close> seeks to \<open>chunkIndex * CHUNK_SIZE\<close> and writes
  \<open>new Uint8Array(payload.buffer)\<close>: a view over the whole buffer that underlies the
  payload. A write to a stream that is closing or closed is rejected and leaves the
  sink as it was.
\<close>

definition writeChunkToDisk :: "Receiver \<Rightarrow> nat \<Rightarrow> Uint8Array \<Rightarrow> Receiver" where
  "writeChunkToDisk r idx pl =
     (case (writableStream r, fileMeta r) of
        (Some ws, Some meta) \<Rightarrow>
          if stream_closed ws then r
          else r\<lparr>writableStream :=
                   Some (ws\<lparr>written := written ws
                               @ [(idx * CHUNK_SIZE, u8_bytes (Uint8Array_of (buffer pl)))]\<rparr>)\<rparr>
      | _ \<Rightarrow> r)"

text \<open>
  \<open>sendAcks\<close>: one \<open>ack\<close> per pending index, then the list is emptied. The channel does
  not change state inside the loop, so a \<open>send\<close> that throws is the first one, before
  anything was sent and with the pending list untouched.
\<close>

fun send_all :: "RTCDataChannel \<Rightarrow> frame list \<Rightarrow> js_error + RTCDataChannel" where
  "send_all ch [] = Inr ch"
| "send_all ch (f # fs) =
     (case channel_send ch f of Inl e \<Rightarrow> Inl e | Inr ch' \<Rightarrow> send_all ch' fs)"

definition sendAcks :: "Receiver \<Rightarrow> js_error + Receiver" where
  "sendAcks r =
     (case rx_dataChannel r of
        None \<Rightarrow> Inr r
      | Some ch \<Rightarrow>
          if pendingAcks r = [] then Inr r
          else (case send_all ch (map (\<lambda>i. TextFrame (Ack i)) (pendingAcks r)) of
                  Inl e \<Rightarrow> Inl e
                | Inr ch' \<Rightarrow> Inr (r\<lparr>rx_dataChannel := Some ch', pendingAcks := []\<rparr>)))"

definition sendControl :: "Receiver \<Rightarrow> control_action \<Rightarrow> js_error + Receiver" where
  "sendControl r action =
     (case rx_dataChannel r of
        None \<Rightarrow> Inr r
      | Some ch \<Rightarrow>
          (case channel_send ch (TextFrame (Control action)) of
             Inl e \<Rightarrow> Inl e
           | Inr ch' \<Rightarrow> Inr (r\<lparr>rx_dataChannel := Some ch'\<rparr>)))"

text \<open>
  \<open>assembleAndDownload\<close>: the chunks in ascending index order, concatenated into a blob;
  a \<open>Uint8Array\<close> contributes the bytes of its window.
\<close>

definition assembleAndDownload :: "Receiver \<Rightarrow> Receiver" where
  "assembleAndDownload r =
     (case fileMeta r of
        None \<Rightarrow> r
      | Some meta \<Rightarrow>
          rx_updateProgress
            (r\<lparr>downloaded :=
                  Some (concat (map (\<lambda>i. case map_of (chunks r) i of
                                             None \<Rightarrow> [] | Some pl \<Rightarrow> u8_bytes pl)
                                    (sort (remdups (map fst (chunks r)))))),
                chunks := []\<rparr>)
            Completed)"

text \<open>
  \<open>completeTransfer\<close> is asynchronous and nobody awaits it: an exception inside it ends
  it where it is thrown and reaches no handler. It calls \<open>close()\<close> on the sink before
  it is first suspended; the model then runs it to its end.
\<close>

definition completeTransfer :: "Receiver \<Rightarrow> Receiver" where
  "completeTransfer r =
     (case sendAcks r of
        Inl e \<Rightarrow> r
      | Inr r1 \<Rightarrow>
          let r2 = r1\<lparr>nackTimer := False\<rparr>;
              r3 = (case writableStream r2 of
                      Some ws \<Rightarrow>
                        rx_updateProgress
                          (r2\<lparr>writableStream := Some (ws\<lparr>stream_closed := True\<rparr>)\<rparr>) Completed
                    | None \<Rightarrow> assembleAndDownload r2)
          in (case (rx_dataChannel r3, fileMeta r3) of
                (Some ch, Some meta) \<Rightarrow>
                  (case channel_send ch (TextFrame (TransferComplete True (receivedBytes r3))) of
                     Inl e \<Rightarrow> r3
                   | Inr ch' \<Rightarrow> r3\<lparr>rx_dataChannel := Some ch'\<rparr>)
              | _ \<Rightarrow> r3))"

text \<open>
  \<open>handleBinaryChunk\<close>. Everything after the metadata check runs inside \<open>try\<close>; the
  \<open>catch\<close> logs and returns, so an exception leaves the receiver in the state reached
  when it was thrown. On the sink path \<open>writeChunkToDisk\<close> is called and not awaited: it
  issues its \<open>seek\<close> and is suspended there, and its \<open>write\<close> runs once the rest of the
  handler is done. For the chunk that completes the transfer this is after
  \<open>completeTransfer\<close> has called \<open>close()\<close>, and the write is rejected.
\<close>

definition handleBinaryChunk :: "Receiver \<Rightarrow> ArrayBuffer \<Rightarrow> Receiver" where
  "handleBinaryChunk r buf =
     (case (fileMeta r, receivedRanges r) of
        (Some meta, Some rr) \<Rightarrow>
          (case decodeChunk buf of
             Inl e \<Rightarrow> r
           | Inr d \<Rightarrow>
               if hasChunk rr (chunkIndex d) then r
               else
                 let r1 = (case writableStream r of
                             Some ws \<Rightarrow> r
                           | None \<Rightarrow>
                               r\<lparr>chunks := AList.update (chunkIndex d) (payload d) (chunks r)\<rparr>);
                     rr' = markReceived rr (chunkIndex d);
                     r2 = r1\<lparr>receivedRanges := Some rr',
                             receivedBytes := receivedBytes r1 + byteLength (payload d),
                             pendingAcks := pendingAcks r1 @ [chunkIndex d]\<rparr>;
                     r5 = (case (if length (pendingAcks r2) \<ge> ackBatchSize (rx_config r2)
                                 then sendAcks r2 else Inr r2) of
                             Inl e \<Rightarrow> r2
                           | Inr r3 \<Rightarrow>
                               let r4 = rx_updateProgress r3 Transferring
                               in if isComplete rr' then completeTransfer r4 else r4)
                 in (case writableStream r of
                       Some ws \<Rightarrow> writeChunkToDisk r5 (chunkIndex d) (payload d)
                     | None \<Rightarrow> r5))
      | _ \<Rightarrow> r)"

text \<open>
  \<open>handleFileMetadata\<close> at time \<open>now\<close>. The request for a file handle is asynchronous
  and answered by the user: \<open>fileHandleGranted\<close> is the step in which
  \<open>createWritable\<close> has delivered the stream.
\<close>

definition handleFileMetadata :: "Receiver \<Rightarrow> FileMetadata \<Rightarrow> nat \<Rightarrow> Receiver \<times> js_error option" where
  "handleFileMetadata r meta now =
     (let r1 = r\<lparr>fileMeta := Some meta,
                  receivedRanges := Some (new_ReceivedRanges (meta_totalChunks meta)),
                  chunks := [], receivedBytes := 0, rx_startTime := Some now\<rparr>;
          r2 = rx_updateProgress r1 Transferring;
          r3 = r2\<lparr>nackTimer := True\<rparr>
      in (case sendControl r3 Ready of
            Inl e \<Rightarrow> (r3, Some e)
          | Inr r4 \<Rightarrow> (r4, None)))"

definition fileHandleGranted :: "Receiver \<Rightarrow> Receiver" where
  "fileHandleGranted r = r\<lparr>writableStream := Some \<lparr>written = [], stream_closed = False\<rparr>\<rparr>"

definition handleProtocolMessage :: "Receiver \<Rightarrow> ProtocolMessage \<Rightarrow> nat \<Rightarrow> Receiver \<times> js_error option" where
  "handleProtocolMessage r m now =
     (case m of
        FileMeta meta \<Rightarrow> handleFileMetadata r meta now
      | _ \<Rightarrow> (r, None))"

text \<open>
  The \<open>onmessage\<close> handler. A string is parsed and dispatched inside \<open>try\<close>; the
  \<open>catch\<close> only logs, so the handler ends in the state reached at the throw and no
  exception leaves it.
\<close>

definition handleDataChannelMessage :: "Receiver \<Rightarrow> event_data \<Rightarrow> nat \<Rightarrow> Receiver" where
  "handleDataChannelMessage r ev now =
     (case ev of
        BinaryData buf \<Rightarrow> handleBinaryChunk r buf
      | StringData None \<Rightarrow> r
      | StringData (Some m) \<Rightarrow> fst (handleProtocolMessage r m now)
      | OtherData \<Rightarrow> r)"

text \<open>The body of the NACK timer: \<open>sendNack\<close> when the transfer is not complete.\<close>

definition sendNack :: "Receiver \<Rightarrow> Receiver" where
  "sendNack r =
     (case (rx_dataChannel r, receivedRanges r) of
        (Some ch, Some rr) \<Rightarrow>
          (let missing = getMissingChunks rr
           in if length missing = 0 \<or> length missing \<ge> 100 then r
              else if readyState ch \<noteq> Open then r
              else (case channel_send ch (TextFrame (Nack (take 20 missing))) of
                      Inl e \<Rightarrow> r
                    | Inr ch' \<Rightarrow> r\<lparr>rx_dataChannel := Some ch'\<rparr>))
      | _ \<Rightarrow> r)"

definition nackTimerTick :: "Receiver \<Rightarrow> Receiver" where
  "nackTimerTick r =
     (case receivedRanges r of
        Some rr \<Rightarrow> if \<not> isComplete rr then sendNack r else r
      | None \<Rightarrow> r)"

section \<open>Sender (transport/Sender.ts)\<close>

record SenderConfig =
  tx_maxOutstandingBytes :: nat
  tx_bufferedAmountLowThreshold :: nat

definition DEFAULT_SENDER_CONFIG :: SenderConfig where
  "DEFAULT_SENDER_CONFIG =
     \<lparr>tx_maxOutstandingBytes = 8 * 1024 * 1024, tx_bufferedAmountLowThreshold = 256 * 1024\<rparr>"

record File =
  file_name :: string
  file_type :: string
  file_bytes :: "byte list"

definition file_size :: "File \<Rightarrow> nat" where
  "file_size f = length (file_bytes f)"

text \<open>\<open>file.slice(start, end)\<close> followed by \<open>arrayBuffer()\<close>.\<close>

definition file_slice :: "File \<Rightarrow> nat \<Rightarrow> nat \<Rightarrow> byte list" where
  "file_slice f start end = take (end - start) (drop start (file_bytes f))"

definition createFileMetadata :: "File \<Rightarrow> FileMetadata" where
  "createFileMetadata f =
     \<lparr>meta_name = file_name f, meta_size = file_size f,
      meta_mimeType = (if file_type f = [] then ''application/octet-stream'' else file_type f),
      meta_totalChunks = calculateTotalChunks (file_size f)\<rparr>"

text \<open>
  The promise that \<open>sendFile\<close> returns, and the point at which the asynchronous
  \<open>sendLoop\<close> is suspended. The flag of \<open>AwaitSpace\<close> and \<open>AwaitBufferLow\<close> says whether
  the awaited promise is resolved, that is, whether the loop can be resumed.
\<close>

datatype promise_state = Pending | Resolved | Rejected js_error

datatype loop_state =
    NoLoop
  | AwaitSpace bool
  | AwaitBufferLow bool
  | AwaitRead nat
  | LoopReturned

record Sender =
  tx_config :: SenderConfig
  window :: SlidingWindow
  tx_dataChannel :: "RTCDataChannel option"
  tx_file :: "File option"
  currentChunkIndex :: nat
  tx_totalChunks :: nat
  sentBytes :: int
  tx_startTime :: "nat option"
  tx_onProgress :: "TransferStatus list option"
  sending :: bool
  cancelled :: bool
  transferResolver :: bool
  transferRejecter :: bool
  transferPromise :: promise_state
  bufferLowResolver :: bool
  sendLoopState :: loop_state
  retransmitReads :: "nat list"

definition new_Sender :: "SenderConfig \<Rightarrow> Sender" where
  "new_Sender cfg =
     \<lparr>tx_config = cfg,
      window = new_SlidingWindow (merge_flow_config (Some (tx_maxOutstandingBytes cfg)) None),
      tx_dataChannel = None, tx_file = None, currentChunkIndex = 0, tx_totalChunks = 0,
      sentBytes = 0, tx_startTime = None, tx_onProgress = None, sending = False,
      cancelled = False, transferResolver = False, transferRejecter = False,
      transferPromise = Pending, bufferLowResolver = False, sendLoopState = NoLoop,
      retransmitReads = []\<rparr>"

definition tx_initialize :: "Sender \<Rightarrow> RTCDataChannel \<Rightarrow> Sender" where
  "tx_initialize s ch =
     s\<lparr>tx_dataChannel :=
         Some (ch\<lparr>bufferedAmountLowThreshold := tx_bufferedAmountLowThreshold (tx_config s)\<rparr>),
       tx_onProgress := Some []\<rparr>"

definition tx_updateProgress :: "Sender \<Rightarrow> TransferStatus \<Rightarrow> Sender" where
  "tx_updateProgress s status =
     (case (tx_onProgress s, tx_file s) of
        (Some reports, Some f) \<Rightarrow> s\<lparr>tx_onProgress := Some (reports @ [status])\<rparr>
      | _ \<Rightarrow> s)"

text \<open>
  The waiters that a window operation called: the only waiter there is belongs to the
  suspended send loop, which becomes resumable.
\<close>

definition wake :: "Sender \<Rightarrow> SlidingWindow \<times> waiter list \<Rightarrow> Sender" where
  "wake s res =
     (let s' = s\<lparr>window := fst res\<rparr>
      in if snd res \<noteq> [] \<and> sendLoopState s' = AwaitSpace False
         then s'\<lparr>sendLoopState := AwaitSpace True\<rparr> else s')"

definition cancel :: "Sender \<Rightarrow> Sender" where
  "cancel s =
     (let s1 = wake (s\<lparr>cancelled := True, sending := False\<rparr>) (clear (window s));
          s2 = tx_updateProgress s1 Failed
      in if transferRejecter s2
         then s2\<lparr>transferPromise :=
                    (if transferPromise s2 = Pending then Rejected TransferCancelled
                     else transferPromise s2),
                 transferResolver := False, transferRejecter := False\<rparr>
         else s2)"

text \<open>
  The head of the \<open>while\<close> loop of \<open>sendLoop\<close>, up to its first suspension: either the
  condition fails and \<open>sendLoop\<close> returns, or \<open>waitForSpace\<close> is called and awaited.
\<close>

definition sendLoop_head :: "Sender \<Rightarrow> Sender" where
  "sendLoop_head s =
     (if currentChunkIndex s < tx_totalChunks s \<and> sending s \<and> \<not> cancelled s
      then (let (w, ready) = waitForSpace (window s) (currentChunkIndex s)
            in s\<lparr>window := w, sendLoopState := AwaitSpace ready\<rparr>)
      else s\<lparr>sendLoopState := LoopReturned\<rparr>)"

text \<open>
  An exception inside \<open>sendLoop\<close> rejects its promise; the \<open>catch\<close> installed by
  \<open>sendFile\<close> then calls \<open>cancel()\<close> and \<open>reject(error)\<close>.
\<close>

definition sendLoop_failed :: "Sender \<Rightarrow> js_error \<Rightarrow> Sender" where
  "sendLoop_failed s e =
     (let s1 = cancel (s\<lparr>sendLoopState := LoopReturned\<rparr>)
      in s1\<lparr>transferPromise :=
               (if transferPromise s1 = Pending then Rejected e else transferPromise s1)\<rparr>)"

text \<open>
  The part of \<open>sendChunk\<close> after the slice was read: encode, send, \<open>markSent\<close>, account.
  The result is the error when \<open>send\<close> or \<open>markSent\<close> throws, with the state reached.
\<close>

definition sendChunk_finish :: "Sender \<Rightarrow> nat \<Rightarrow> nat \<Rightarrow> Sender \<times> js_error option" where
  "sendChunk_finish s idx now =
     (case (tx_file s, tx_dataChannel s) of
        (Some f, Some ch) \<Rightarrow>
          (let start = idx * CHUNK_SIZE;
               end = min (start + CHUNK_SIZE) (file_size f);
               encodedChunk = encodeChunk idx (Uint8Array_of (file_slice f start end))
           in (case channel_send ch (BinaryFrame encodedChunk) of
                 Inl e \<Rightarrow> (s, Some e)
               | Inr ch' \<Rightarrow>
                   (let s1 = s\<lparr>tx_dataChannel := Some ch'\<rparr>
                    in (case markSent (window s1) idx now of
                          Inl e \<Rightarrow> (s1, Some e)
                        | Inr w \<Rightarrow>
                            (tx_updateProgress
                               (s1\<lparr>window := w, sentBytes := sentBytes s1 + (int end - int start)\<rparr>)
                               Transferring, None)))))
      | _ \<Rightarrow> (s, None))"

text \<open>
  One resumption of the suspended \<open>sendLoop\<close>, run up to its next suspension. A loop
  whose awaited promise is not resolved does not run.
\<close>

definition sendLoop_resume :: "Sender \<Rightarrow> nat \<Rightarrow> Sender" where
  "sendLoop_resume s now =
     (case sendLoopState s of
        AwaitSpace True \<Rightarrow>
          if cancelled s then s\<lparr>sendLoopState := LoopReturned\<rparr>
          else (case tx_dataChannel s of
                  None \<Rightarrow> s\<lparr>sendLoopState := AwaitBufferLow True\<rparr>
                | Some ch \<Rightarrow>
                    if bufferedAmount ch \<le> tx_bufferedAmountLowThreshold (tx_config s)
                    then s\<lparr>sendLoopState := AwaitBufferLow True\<rparr>
                    else s\<lparr>bufferLowResolver := True, sendLoopState := AwaitBufferLow False\<rparr>)
      | AwaitBufferLow True \<Rightarrow>
          if cancelled s then s\<lparr>sendLoopState := LoopReturned\<rparr>
          else s\<lparr>sendLoopState := AwaitRead (currentChunkIndex s)\<rparr>
      | AwaitRead idx \<Rightarrow>
          (case sendChunk_finish s idx now of
             (s1, Some e) \<Rightarrow> sendLoop_failed s1 e
           | (s1, None) \<Rightarrow> sendLoop_head (s1\<lparr>currentChunkIndex := currentChunkIndex s1 + 1\<rparr>))
      | _ \<Rightarrow> s)"

definition onbufferedamountlow :: "Sender \<Rightarrow> Sender" where
  "onbufferedamountlow s =
     (if bufferLowResolver s
      then s\<lparr>bufferLowResolver := False,
             sendLoopState :=
               (if sendLoopState s = AwaitBufferLow False then AwaitBufferLow True
                else sendLoopState s)\<rparr>
      else s)"

text \<open>
  \<open>sendFile\<close> at time \<open>now\<close>, up to the point where it returns its promise: the result is
  the exception thrown before anything was done, or the sender with the new pending
  promise and the send loop started.
\<close>

definition sendFile :: "Sender \<Rightarrow> File \<Rightarrow> nat \<Rightarrow> js_error + Sender" where
  "sendFile s f now =
     (case tx_dataChannel s of
        None \<Rightarrow> Inl DataChannelNotReady
      | Some ch \<Rightarrow>
          if readyState ch \<noteq> Open then Inl DataChannelNotReady
          else
            (let s1 = s\<lparr>tx_file := Some f,
                         tx_totalChunks := calculateTotalChunks (file_size f),
                         currentChunkIndex := 0, sentBytes := 0, tx_startTime := Some now,
                         sending := True, cancelled := False\<rparr>
             in (case channel_send ch (TextFrame (FileMeta (createFileMetadata f))) of
                   Inl e \<Rightarrow> Inl e
                 | Inr ch' \<Rightarrow>
                     Inr (sendLoop_head
                            ((tx_updateProgress (s1\<lparr>tx_dataChannel := Some ch'\<rparr>) Transferring)
                               \<lparr>transferPromise := Pending, transferResolver := True,
                                transferRejecter := True\<rparr>)))))"

definition handleAck :: "Sender \<Rightarrow> nat \<Rightarrow> Sender" where
  "handleAck s idx =
     (let s1 = wake s (onAck (window s) idx)
      in if currentChunkIndex s1 \<ge> tx_totalChunks s1
            \<and> stat_outstandingChunks (getStats (window s1)) = 0
         then (let s2 = tx_updateProgress (s1\<lparr>sending := False\<rparr>) Completed
               in if transferResolver s2
                  then s2\<lparr>transferPromise :=
                             (if transferPromise s2 = Pending then Resolved
                              else transferPromise s2),
                          transferResolver := False, transferRejecter := False\<rparr>
                  else s2)
         else s1)"

text \<open>
  \<open>handleNack\<close> starts one \<open>sendChunk\<close> per chunk to retransmit and awaits none of them;
  each is suspended reading its slice. \<open>retransmit_resume\<close> completes the oldest one; an
  exception there reaches no handler.
\<close>

definition handleNack :: "Sender \<Rightarrow> nat list \<Rightarrow> Sender" where
  "handleNack s missingChunks =
     (case (tx_file s, tx_dataChannel s) of
        (Some f, Some ch) \<Rightarrow>
          s\<lparr>retransmitReads := retransmitReads s @ getChunksForRetransmit (window s) missingChunks\<rparr>
      | _ \<Rightarrow> s)"

definition retransmit_resume :: "Sender \<Rightarrow> nat \<Rightarrow> Sender" where
  "retransmit_resume s now =
     (case retransmitReads s of
        [] \<Rightarrow> s
      | idx # rest \<Rightarrow> fst (sendChunk_finish (s\<lparr>retransmitReads := rest\<rparr>) idx now))"

definition handleControl :: "Sender \<Rightarrow> control_action \<Rightarrow> Sender" where
  "handleControl s action =
     (case action of
        Ready \<Rightarrow> wake s (resume (window s))
      | PauseAction \<Rightarrow> tx_updateProgress (s\<lparr>window := pause (window s)\<rparr>) PausedStatus
      | ResumeAction \<Rightarrow> tx_updateProgress (wake s (resume (window s))) Transferring)"

definition handleMessage :: "Sender \<Rightarrow> ProtocolMessage \<Rightarrow> Sender" where
  "handleMessage s m =
     (case m of
        Ack idx \<Rightarrow> handleAck s idx
      | Nack missingChunks \<Rightarrow> handleNack s missingChunks
      | Control action \<Rightarrow> handleControl s action
      | _ \<Rightarrow> s)"

section \<open>PIN validation (PinValidator.java, ValidatePin.ts)\<close>

text \<open>
  Strings are lists of code units; the model covers the code units \<open>U+0000\<close> to
  \<open>U+00FF\<close>, the range of \<^typ>\<open>char\<close>. The character classes below are those of
  \<open>java.lang.Character\<close> on that range. Unicode normalisation (NFKC) and upper-casing
  are library functions whose results can leave this range; they are parameters of the
  functions that call them. \<open>nfkc_ascii\<close> and \<open>toUpperCase_ascii\<close> are these functions on
  ASCII text, where NFKC changes nothing and upper-casing maps \<open>a..z\<close> to \<open>A..Z\<close>; they
  differ from the library on other code units and are applied to ASCII strings only.
\<close>

definition PIN_CHARACTERS :: string where
  "PIN_CHARACTERS = ''ABCDEFGHJKLMNPQRSTUVWXYZ23456789''"

definition PIN_LENGTH :: nat where
  "PIN_LENGTH = 6"

definition code_unit :: "char \<Rightarrow> nat" where
  "code_unit c = of_char c"

definition isWhitespace :: "char \<Rightarrow> bool" where
  "isWhitespace c = ((9 \<le> code_unit c \<and> code_unit c \<le> 13) \<or> (28 \<le> code_unit c \<and> code_unit c \<le> 32))"

definition isISOControl :: "char \<Rightarrow> bool" where
  "isISOControl c = (code_unit c \<le> 31 \<or> (127 \<le> code_unit c \<and> code_unit c \<le> 159))"

definition isSurrogate :: "char \<Rightarrow> bool" where
  "isSurrogate c = (55296 \<le> code_unit c \<and> code_unit c \<le> 57343)"

definition isLetter :: "char \<Rightarrow> bool" where
  "isLetter c =
     ((65 \<le> code_unit c \<and> code_unit c \<le> 90) \<or> (97 \<le> code_unit c \<and> code_unit c \<le> 122)
      \<or> code_unit c = 170 \<or> code_unit c = 181 \<or> code_unit c = 186
      \<or> (192 \<le> code_unit c \<and> code_unit c \<le> 214) \<or> (216 \<le> code_unit c \<and> code_unit c \<le> 246)
      \<or> 248 \<le> code_unit c)"

definition isLowerCase :: "char \<Rightarrow> bool" where
  "isLowerCase c =
     ((97 \<le> code_unit c \<and> code_unit c \<le> 122) \<or> code_unit c = 170 \<or> code_unit c = 181 \<or> code_unit c = 186
      \<or> (223 \<le> code_unit c \<and> code_unit c \<le> 246) \<or> 248 \<le> code_unit c)"

text \<open>\<open>String.isBlank\<close> and \<open>String.trim\<close> of Java.\<close>

definition isBlank :: "string \<Rightarrow> bool" where
  "isBlank s = list_all isWhitespace s"

definition java_trim :: "string \<Rightarrow> string" where
  "java_trim s = rev (dropWhile (\<lambda>c. code_unit c \<le> 32) (rev (dropWhile (\<lambda>c. code_unit c \<le> 32) s)))"

definition nfkc_ascii :: "string \<Rightarrow> string" where
  "nfkc_ascii s = s"

definition toUpperCase_ascii :: "string \<Rightarrow> string" where
  "toUpperCase_ascii s =
     map (\<lambda>c. if 97 \<le> code_unit c \<and> code_unit c \<le> 122 then char_of (code_unit c - 32) else c) s"

text \<open>The lower-case rendition of an ASCII string: \<open>A..Z\<close> become \<open>a..z\<close>.\<close>

definition toLowerCase_ascii :: "string \<Rightarrow> string" where
  "toLowerCase_ascii s =
     map (\<lambda>c. if 65 \<le> code_unit c \<and> code_unit c \<le> 90 then char_of (code_unit c + 32) else c) s"

definition normalize_pin :: "(string \<Rightarrow> string) \<Rightarrow> string \<Rightarrow> string" where
  "normalize_pin nfkc pin = java_trim (nfkc pin)"

text \<open>The \<open>for\<close> loop of \<open>isValid\<close> over the normalised string, from its first character.\<close>

fun isValid_chars :: "string \<Rightarrow> bool" where
  "isValid_chars [] = True"
| "isValid_chars (c # cs) =
     (if isWhitespace c then False
      else if isISOControl c \<or> isSurrogate c then False
      else if isLetter c \<and> isLowerCase c then False
      else if c \<notin> set PIN_CHARACTERS then False
      else isValid_chars cs)"

text \<open>\<open>PinValidator.isValid\<close>; a Java \<open>String\<close> may be \<open>null\<close>.\<close>

definition isValid :: "(string \<Rightarrow> string) \<Rightarrow> string option \<Rightarrow> bool" where
  "isValid nfkc pin =
     (case pin of
        None \<Rightarrow> False
      | Some p \<Rightarrow>
          if isBlank p then False
          else (let normalized = normalize_pin nfkc p
                in if length normalized \<noteq> PIN_LENGTH then False
                   else isValid_chars normalized))"

definition canonicalize :: "(string \<Rightarrow> string) \<Rightarrow> (string \<Rightarrow> string) \<Rightarrow> string \<Rightarrow> string" where
  "canonicalize nfkc toUpperCase pin = toUpperCase (java_trim (nfkc pin))"

text \<open>
  The front end's \<open>validatePin\<close>:
  \<open>pin.trim().toUpperCase().normalize('NFKC')\<close>, then the length and the alphabet.
  JavaScript's \<open>trim\<close> removes white space and line terminators.
\<close>

definition js_isSpace :: "char \<Rightarrow> bool" where
  "js_isSpace c = ((9 \<le> code_unit c \<and> code_unit c \<le> 13) \<or> code_unit c = 32 \<or> code_unit c = 160)"

definition js_trim :: "string \<Rightarrow> string" where
  "js_trim s = rev (dropWhile js_isSpace (rev (dropWhile js_isSpace s)))"

definition validatePin :: "(string \<Rightarrow> string) \<Rightarrow> (string \<Rightarrow> string) \<Rightarrow> string \<Rightarrow> bool" where
  "validatePin toUpperCase nfkc pin =
     (let candidate = nfkc (toUpperCase (js_trim pin))
      in if length candidate \<noteq> PIN_LENGTH then False
         else list_all (\<lambda>c. c \<in> set PIN_CHARACTERS) candidate)"

section \<open>Session registry (RedisSessionRepository.java, PinGenerator.java)\<close>

text \<open>
  The Redis store: one key space whose values are hashes or strings, with a time to live
  per key. Commands on a key of the wrong kind fail with \<open>WRONGTYPE\<close>, which Jedis
  throws as an exception. The passing of time is not modelled: every command runs
  against the keys that have not expired.
\<close>

datatype redis_value = RHash "(string \<times> string) list" | RString string

datatype java_exception = WRONGTYPE | NullPointerException | JsonParseException

record redis =
  store :: "string \<rightharpoonup> redis_value"
  ttl :: "string \<rightharpoonup> nat"

definition redis_exists :: "redis \<Rightarrow> string \<Rightarrow> bool" where
  "redis_exists db k = (store db k \<noteq> None)"

definition redis_hset :: "redis \<Rightarrow> string \<Rightarrow> (string \<times> string) list \<Rightarrow> java_exception + redis" where
  "redis_hset db k fvs =
     (case store db k of
        None \<Rightarrow> Inr (db\<lparr>store := (store db)(k \<mapsto> RHash (AList.updates (map fst fvs) (map snd fvs) []))\<rparr>)
      | Some (RHash h) \<Rightarrow>
          Inr (db\<lparr>store := (store db)(k \<mapsto> RHash (AList.updates (map fst fvs) (map snd fvs) h))\<rparr>)
      | Some (RString v) \<Rightarrow> Inl WRONGTYPE)"

definition redis_expire :: "redis \<Rightarrow> string \<Rightarrow> nat \<Rightarrow> redis" where
  "redis_expire db k seconds =
     (if redis_exists db k then db\<lparr>ttl := (ttl db)(k \<mapsto> seconds)\<rparr> else db)"

definition redis_setex :: "redis \<Rightarrow> string \<Rightarrow> nat \<Rightarrow> string \<Rightarrow> redis" where
  "redis_setex db k seconds v =
     db\<lparr>store := (store db)(k \<mapsto> RString v), ttl := (ttl db)(k \<mapsto> seconds)\<rparr>"

definition redis_get :: "redis \<Rightarrow> string \<Rightarrow> java_exception + string option" where
  "redis_get db k =
     (case store db k of
        None \<Rightarrow> Inr None
      | Some (RString v) \<Rightarrow> Inr (Some v)
      | Some (RHash h) \<Rightarrow> Inl WRONGTYPE)"

definition redis_hgetAll :: "redis \<Rightarrow> string \<Rightarrow> java_exception + (string \<times> string) list" where
  "redis_hgetAll db k =
     (case store db k of
        None \<Rightarrow> Inr []
      | Some (RHash h) \<Rightarrow> Inr h
      | Some (RString v) \<Rightarrow> Inl WRONGTYPE)"

definition redis_del :: "redis \<Rightarrow> string \<Rightarrow> redis" where
  "redis_del db k = db\<lparr>store := (store db)(k := None), ttl := (ttl db)(k := None)\<rparr>"

definition TTL_SECONDS :: nat where
  "TTL_SECONDS = 600"

definition PIN_KEY_PREFIX :: string where
  "PIN_KEY_PREFIX = ''pin:''"

definition CONN_KEY_PREFIX :: string where
  "CONN_KEY_PREFIX = ''connection:''"

text \<open>
  \<open>PinGenerator.generate\<close>. The random source is the sequence \<open>rnd\<close> of the results of
  \<open>random.nextInt(32)\<close>, read from position \<open>pos\<close>; a result of \<open>nextInt(32)\<close> lies in
  \<open>[0, 32)\<close>, which the model secures by reducing modulo the length of the alphabet.
\<close>

definition PIN_CHARS :: string where
  "PIN_CHARS = ''ABCDEFGHJKLMNPQRSTUVWXYZ23456789''"

definition generate :: "(nat \<Rightarrow> nat) \<Rightarrow> nat \<Rightarrow> string" where
  "generate rnd pos = map (\<lambda>i. PIN_CHARS ! (rnd (pos + i) mod length PIN_CHARS)) [0..<PIN_LENGTH]"

text \<open>
  The \<open>do ... while\<close> loop of \<open>createSession\<close>: generate a candidate, repeat while its
  key exists. Nothing bounds the number of rounds, so the loop is a partial function:
  \<open>None\<close> stands for a run that never leaves the loop. The result is the PIN and the
  position reached in the random sequence.
\<close>

partial_function (option) createSession_loop ::
  "redis \<Rightarrow> (nat \<Rightarrow> nat) \<Rightarrow> nat \<Rightarrow> (string \<times> nat) option" where
  "createSession_loop db rnd pos =
     (if redis_exists db (PIN_KEY_PREFIX @ generate rnd pos)
      then createSession_loop db rnd (pos + PIN_LENGTH)
      else Some (generate rnd pos, pos + PIN_LENGTH))"

definition createSession ::
  "redis \<Rightarrow> (nat \<Rightarrow> nat) \<Rightarrow> nat \<Rightarrow> string \<Rightarrow> (java_exception + string \<times> redis \<times> nat) option" where
  "createSession db rnd pos senderConnectionId =
     (case createSession_loop db rnd pos of
        None \<Rightarrow> None
      | Some (pin, pos') \<Rightarrow>
          Some (case redis_hset db (PIN_KEY_PREFIX @ pin) [(''senderConnId'', senderConnectionId)] of
                  Inl e \<Rightarrow> Inl e
                | Inr db1 \<Rightarrow>
                    Inr (pin,
                         redis_setex (redis_expire db1 (PIN_KEY_PREFIX @ pin) TTL_SECONDS)
                           (CONN_KEY_PREFIX @ senderConnectionId) TTL_SECONDS pin,
                         pos')))"

definition getSession :: "redis \<Rightarrow> string \<Rightarrow> java_exception + (string \<times> string) list" where
  "getSession db pin = redis_hgetAll db (PIN_KEY_PREFIX @ pin)"

definition joinSession :: "redis \<Rightarrow> string \<Rightarrow> string \<Rightarrow> java_exception + bool \<times> redis" where
  "joinSession db pin receiverConnectionId =
     (if \<not> redis_exists db (PIN_KEY_PREFIX @ pin) then Inr (False, db)
      else (case redis_hset db (PIN_KEY_PREFIX @ pin) [(''receiverConnId'', receiverConnectionId)] of
              Inl e \<Rightarrow> Inl e
            | Inr db1 \<Rightarrow>
                Inr (True,
                     redis_setex (redis_expire db1 (PIN_KEY_PREFIX @ pin) TTL_SECONDS)
                       (CONN_KEY_PREFIX @ receiverConnectionId) TTL_SECONDS pin)))"

definition getPinByConnectionId :: "redis \<Rightarrow> string \<Rightarrow> java_exception + string option" where
  "getPinByConnectionId db connectionId = redis_get db (CONN_KEY_PREFIX @ connectionId)"

definition removeSession :: "redis \<Rightarrow> string option \<Rightarrow> java_exception + redis" where
  "removeSession db pin =
     (case pin of
        None \<Rightarrow> Inr db
      | Some p \<Rightarrow>
          (case getSession db p of
             Inl e \<Rightarrow> Inl e
           | Inr session \<Rightarrow>
               (let db1 = (case map_of session ''senderConnId'' of
                             Some sender \<Rightarrow> redis_del db (CONN_KEY_PREFIX @ sender)
                           | None \<Rightarrow> db);
                    db2 = (case map_of session ''receiverConnId'' of
                             Some receiver \<Rightarrow> redis_del db1 (CONN_KEY_PREFIX @ receiver)
                           | None \<Rightarrow> db1)
                in Inr (redis_del db2 (PIN_KEY_PREFIX @ p)))))"

section \<open>Signaling handler (WebSocketHandler.java)\<close>

text \<open>
  The messages the handler posts to a connection, and the body of a request: absent,
  not parseable as JSON, or a JSON object given by its text fields.
\<close>

datatype server_message =
    RegisterReply string
  | PeerJoined
  | Joined
  | ErrorReply string "string option"
  | PeerLeft
  | Relayed "(string \<times> string) list"

datatype request_body = NullBody | MalformedBody | JsonBody "(string \<times> string) list"

text \<open>
  The state the handler works on: the store, the position in the random sequence,
  whether a management-API client is configured, the connections to which a post fails,
  and the posts made, in order.
\<close>

record handler =
  sessionRepository :: redis
  rng_pos :: nat
  apiClient :: bool
  gone :: "string list"
  posted :: "(string \<times> server_message) list"

text \<open>
  \<open>sendMessage\<close> catches what \<open>postToConnection\<close> throws; a \<open>null\<close> connection id is
  one such case.
\<close>

definition sendMessage :: "handler \<Rightarrow> string option \<Rightarrow> server_message \<Rightarrow> handler" where
  "sendMessage h connectionId data =
     (if \<not> apiClient h then h
      else (case connectionId of
              None \<Rightarrow> h
            | Some c \<Rightarrow> if c \<in> set (gone h) then h else h\<lparr>posted := posted h @ [(c, data)]\<rparr>))"

definition relayMessage ::
  "(string \<Rightarrow> string) \<Rightarrow> handler \<Rightarrow> string \<Rightarrow> (string \<times> string) list \<Rightarrow> java_exception + handler" where
  "relayMessage nfkc h fromConnectionId messageData =
     (case getPinByConnectionId (sessionRepository h) fromConnectionId of
        Inl e \<Rightarrow> Inl e
      | Inr pin \<Rightarrow>
          if isValid nfkc pin
          then (case getSession (sessionRepository h) (case pin of Some p \<Rightarrow> p | None \<Rightarrow> []) of
                  Inl e \<Rightarrow> Inl e
                | Inr session \<Rightarrow>
                    (let sender = map_of session ''senderConnId'';
                         receiver = map_of session ''receiverConnId'';
                         targetId = (if Some fromConnectionId = sender then receiver else sender)
                     in if targetId \<noteq> None
                        then Inr (sendMessage h targetId (Relayed messageData))
                        else Inr h))
          else Inr h)"

text \<open>
  \<open>handleMessage\<close>. The result is the exception that leaves the method, or the new
  state; \<open>None\<close> is a \<open>register\<close> request whose \<open>createSession\<close> never returns. Every
  exception here is thrown before the first change to the store.
\<close>

definition message_type :: "(string \<times> string) list \<Rightarrow> string" where
  "message_type message =
     (case map_of message ''type'' of
        Some t \<Rightarrow> t
      | None \<Rightarrow> (case map_of message ''action'' of Some a \<Rightarrow> a | None \<Rightarrow> ''unknown''))"

definition handleJoin :: "handler \<Rightarrow> string \<Rightarrow> (string \<times> string) list \<Rightarrow> java_exception + handler" where
  "handleJoin h connectionId message =
     (case map_of message ''pin'' of
        None \<Rightarrow> Inl NullPointerException
      | Some joinPin \<Rightarrow>
          (case joinSession (sessionRepository h) joinPin connectionId of
             Inl e \<Rightarrow> Inl e
           | Inr (success, db') \<Rightarrow>
               if success
               then (case getSession db' joinPin of
                       Inl e \<Rightarrow> Inl e
                     | Inr session \<Rightarrow>
                         Inr (sendMessage
                                (sendMessage (h\<lparr>sessionRepository := db'\<rparr>) (map_of session ''senderConnId'')
                                   PeerJoined)
                                (Some connectionId) Joined))
               else Inr (sendMessage (h\<lparr>sessionRepository := db'\<rparr>) (Some connectionId)
                           (ErrorReply ''Invalid PIN'' None))))"

definition handleRegister ::
  "(nat \<Rightarrow> nat) \<Rightarrow> handler \<Rightarrow> string \<Rightarrow> (java_exception + handler) option" where
  "handleRegister rnd h connectionId =
     (case createSession (sessionRepository h) rnd (rng_pos h) connectionId of
        None \<Rightarrow> None
      | Some (Inl e) \<Rightarrow> Some (Inl e)
      | Some (Inr (pin, db', pos')) \<Rightarrow>
          Some (Inr (sendMessage (h\<lparr>sessionRepository := db', rng_pos := pos'\<rparr>) (Some connectionId)
                       (RegisterReply pin))))"

definition handleMessage_ws ::
  "(string \<Rightarrow> string) \<Rightarrow> (nat \<Rightarrow> nat) \<Rightarrow> handler \<Rightarrow> string \<Rightarrow> request_body
     \<Rightarrow> (java_exception + handler) option" where
  "handleMessage_ws nfkc rnd h connectionId body =
     (case body of
        NullBody \<Rightarrow> Some (Inr h)
      | MalformedBody \<Rightarrow> Some (Inl JsonParseException)
      | JsonBody message \<Rightarrow>
          (let type = message_type message
           in if type = ''register'' then handleRegister rnd h connectionId
              else if type = ''join'' then Some (handleJoin h connectionId message)
              else if type = ''offer'' \<or> type = ''answer'' \<or> type = ''candidate''
              then Some (relayMessage nfkc h connectionId message)
              else Some (Inr h)))"

section \<open>Example states\<close>

text \<open>
  Concrete channels, files and engine states on which the operations are evaluated.
\<close>

definition open_channel :: RTCDataChannel where
  "open_channel = \<lparr>readyState = Open, sent = [], bufferedAmount = 0, bufferedAmountLowThreshold = 0\<rparr>"

definition example_meta :: FileMetadata where
  "example_meta = \<lparr>meta_name = ''a.bin'', meta_size = 131073,
                    meta_mimeType = ''application/octet-stream'', meta_totalChunks = 3\<rparr>"

definition example_receiver :: Receiver where
  "example_receiver =
     fst (handleFileMetadata
            (rx_initialize (new_Receiver \<lparr>ackBatchSize = 1, nackTimeoutMs = 2000\<rparr>) open_channel)
            example_meta 0)"


text \<open>
  A receiver that was announced a file of a single chunk and was granted a sink.
\<close>

definition single_chunk_receiver :: Receiver where
  "single_chunk_receiver =
     fileHandleGranted
       (fst (handleFileMetadata
               (rx_initialize (new_Receiver \<lparr>ackBatchSize = 1, nackTimeoutMs = 2000\<rparr>)
                  open_channel)
               \<lparr>meta_name = ''a.bin'', meta_size = 1,
                meta_mimeType = ''application/octet-stream'', meta_totalChunks = 1\<rparr> 0))"

definition example_sender :: Sender where
  "example_sender = tx_initialize (new_Sender DEFAULT_SENDER_CONFIG) open_channel"

definition empty_file :: File where
  "empty_file = \<lparr>file_name = ''empty.txt'', file_type = ''text/plain'', file_bytes = []\<rparr>"

definition one_byte_file :: File where
  "one_byte_file = \<lparr>file_name = ''a.bin'', file_type = [], file_bytes = [170]\<rparr>"

text \<open>
  The example sender after the receiver asked it to pause and \<open>sendFile\<close> was then called
  on a one-byte file: the send loop is suspended in \<open>waitForSpace\<close>.
\<close>

definition waiting_sender :: Sender where
  "waiting_sender =
     (case sendFile (handleMessage example_sender (Control PauseAction)) one_byte_file 0 of
        Inr s \<Rightarrow> s
      | Inl e \<Rightarrow> example_sender)"

text \<open>
  A store holding the session of PIN \<open>AAAAAA\<close>, registered by connection \<open>conn-1\<close>, and
  the same store after connection \<open>conn-2\<close> joined it.
\<close>

definition registered_db :: redis where
  "registered_db =
     \<lparr>store = [''pin:AAAAAA'' \<mapsto> RHash [(''senderConnId'', ''conn-1'')],
               ''connection:conn-1'' \<mapsto> RString ''AAAAAA''],
      ttl = [''pin:AAAAAA'' \<mapsto> 600, ''connection:conn-1'' \<mapsto> 600]\<rparr>"

definition paired_db :: redis where
  "paired_db =
     \<lparr>store = [''pin:AAAAAA'' \<mapsto> RHash [(''senderConnId'', ''conn-1'')],
               ''connection:conn-1'' \<mapsto> RString ''AAAAAA'',
               ''pin:AAAAAA'' \<mapsto> RHash [(''senderConnId'', ''conn-1''),
                                           (''receiverConnId'', ''conn-2'')],
               ''connection:conn-2'' \<mapsto> RString ''AAAAAA''],
      ttl = [''pin:AAAAAA'' \<mapsto> 600, ''connection:conn-1'' \<mapsto> 600,
             ''pin:AAAAAA'' \<mapsto> 600, ''connection:conn-2'' \<mapsto> 600]\<rparr>"

definition paired_handler :: handler where
  "paired_handler =
     \<lparr>sessionRepository = paired_db, rng_pos = 6, apiClient = True, gone = [], posted = []\<rparr>"

text \<open>A random source whose first 54 results are 0 and all later ones 1.\<close>

definition nine_collisions :: "nat \<Rightarrow> nat" where
  "nine_collisions i = (if i < 54 then 0 else 1)"

section \<open>Codec properties\<close>

lemma be_recompose:
  fixes n :: nat
  shows "n = q1 * 256 + d \<Longrightarrow> q1 = q2 * 256 + c \<Longrightarrow> q2 = a * 256 + b
    \<Longrightarrow> a * 16777216 + b * 65536 + c * 256 + d = n"
  by arith

lemma length_setUint32_be: "length (setUint32_be n) = 4"
  by (simp add: setUint32_be_def Let_def)

lemma getUint32_setUint32:
  assumes "n < 2 ^ 32"
  shows "getUint32_be (pre @ setUint32_be n @ post) (length pre) = Inr n"
proof -
  have len: "length (setUint32_be n) = 4"
    by (simp add: setUint32_be_def Let_def)
  have b256: "(256::nat) = 2 ^ 8" by simp
  have d24: "n div 2 ^ 24 < 256"
    using assms by (simp add: less_mult_imp_div_less)
  have s0: "n = (n div 256) * 256 + n mod 256"
    by simp
  have s1: "n div 256 = (n div 65536) * 256 + n div 256 mod 256"
    using div_mult2_eq [of n 256 256] by simp
  have s2: "n div 65536 = (n div 16777216) * 256 + n div 65536 mod 256"
    using div_mult2_eq [of n 65536 256] by simp
  have val: "(n div 16777216) * 16777216 + (n div 65536 mod 256) * 65536
               + (n div 256 mod 256) * 256 + n mod 256 = n"
    by (rule be_recompose [OF s0 s1 s2])
  show ?thesis
    using assms d24 val
    by (simp add: getUint32_be_def setUint32_be_def Let_def nth_append unat_of_nat
                  take_bit_eq_mod)
qed

lemma decodeChunk_encodeChunk:
  assumes "i < 2 ^ 32" and "byteLength v < 2 ^ 32"
    and "byteOffset v + byteLength v \<le> length (buffer v)"
  shows "decodeChunk (encodeChunk i v) =
           Inr \<lparr>chunkIndex = i,
                 payload = \<lparr>buffer = encodeChunk i v, byteOffset = HEADER_SIZE,
                            byteLength = byteLength v\<rparr>\<rparr>"
proof -
  have l: "length (u8_bytes v) = byteLength v"
    using assms(3) by (simp add: u8_bytes_def)
  have g0: "getUint32_be (encodeChunk i v) 0 = Inr i"
    using getUint32_setUint32 [OF assms(1), of "[]"] by (simp add: encodeChunk_def)
  have "getUint32_be (setUint32_be i @ setUint32_be (byteLength v) @ u8_bytes v)
          (length (setUint32_be i)) = Inr (byteLength v)"
    by (rule getUint32_setUint32 [OF assms(2)])
  then have g4: "getUint32_be (encodeChunk i v) 4 = Inr (byteLength v)"
    unfolding encodeChunk_def length_setUint32_be .
  have len: "length (encodeChunk i v) = HEADER_SIZE + byteLength v"
    by (simp add: encodeChunk_def length_setUint32_be HEADER_SIZE_def l)
  show ?thesis
    by (simp add: decodeChunk_def g0 g4 len)
qed

lemma u8_bytes_decoded:
  assumes "byteOffset v + byteLength v \<le> length (buffer v)"
  shows "u8_bytes \<lparr>buffer = encodeChunk i v, byteOffset = HEADER_SIZE,
                    byteLength = byteLength v\<rparr> = u8_bytes v"
  using assms
  by (simp add: u8_bytes_def encodeChunk_def length_setUint32_be HEADER_SIZE_def)

text \<open>
  C3. Round trip of the codec: for every chunk index \<open>i \<le> 2^32 - 1\<close> and every byte
  string \<open>p\<close> of at most \<open>CHUNK_SIZE\<close> bytes, decoding the frame that \<open>encodeChunk\<close>
  builds for \<open>(i, p)\<close> succeeds and yields the index \<open>i\<close> and a payload whose bytes are
  exactly \<open>p\<close>.
\<close>

theorem decodeChunk_encodeChunk_roundtrip:
  assumes "i \<le> 2 ^ 32 - 1" and "length p \<le> CHUNK_SIZE"
  shows "\<exists>d. decodeChunk (encodeChunk i (Uint8Array_of p)) = Inr d
             \<and> chunkIndex d = i \<and> u8_bytes (payload d) = p"
proof -
  let ?v = "Uint8Array_of p"
  have i: "i < 2 ^ 32"
    using assms(1) by simp
  have n: "byteLength ?v < 2 ^ 32"
    using assms(2) by (simp add: Uint8Array_of_def CHUNK_SIZE_def)
  have w: "byteOffset ?v + byteLength ?v \<le> length (buffer ?v)"
    by (simp add: Uint8Array_of_def)
  have p: "u8_bytes ?v = p"
    by (simp add: u8_bytes_def Uint8Array_of_def)
  show ?thesis
    using decodeChunk_encodeChunk [OF i n w] u8_bytes_decoded [OF w, of i] p
    by simp
qed

theorem decodeChunk_encodeChunk_roundtrip_witness:
  "(7::nat) \<le> 2 ^ 32 - 1 \<and> length [1, 2, 3 :: byte] \<le> CHUNK_SIZE
   \<and> (\<exists>d. decodeChunk (encodeChunk 7 (Uint8Array_of [1, 2, 3])) = Inr d
          \<and> chunkIndex d = 7 \<and> u8_bytes (payload d) = [1, 2, 3])"
proof -
  have a: "(7::nat) \<le> 2 ^ 32 - 1" by simp
  have b: "length [1, 2, 3 :: byte] \<le> CHUNK_SIZE" by (simp add: CHUNK_SIZE_def)
  show ?thesis
    using a b decodeChunk_encodeChunk_roundtrip [OF a b] by blast
qed

section \<open>Sliding window properties\<close>

lemma map_size_card: "map_size al = card (fst ` set al)"
  by (simp add: map_size_def length_remdups_card_conv)

lemma map_size_update_le: "map_size (AList.update k v al) \<le> Suc (map_size al)"
  by (simp add: map_size_card dom_update card_insert_le_m1 card_insert_if)

lemma map_size_delete_le: "map_size (AList.delete k al) \<le> map_size al"
proof -
  have "fst ` set (AList.delete k al) \<subseteq> fst ` set al"
    by (auto simp: AList.delete_eq)
  then show ?thesis
    by (simp add: map_size_card card_mono)
qed

lemma map_size_foldl_delete_le:
  "map_size (foldl (\<lambda>m idx. AList.delete idx m) al idxs) \<le> map_size al"
proof (induction idxs arbitrary: al)
  case Nil
  show ?case by simp
next
  case (Cons i idxs)
  have "map_size (foldl (\<lambda>m idx. AList.delete idx m) (AList.delete i al) idxs)
          \<le> map_size (AList.delete i al)"
    by (rule Cons.IH)
  also have "\<dots> \<le> map_size al"
    by (rule map_size_delete_le)
  finally show ?case by simp
qed

lemma notifyLoop_keeps:
  "outstandingChunks (fst (notifyLoop w q c)) = outstandingChunks w
   \<and> config (fst (notifyLoop w q c)) = config w
   \<and> maxChunksInFlight (fst (notifyLoop w q c)) = maxChunksInFlight w
   \<and> paused (fst (notifyLoop w q c)) = paused w"
  by (induction w q c rule: notifyLoop.induct) simp_all

lemma notifyWaiters_keeps:
  "outstandingChunks (fst (notifyWaiters w)) = outstandingChunks w
   \<and> config (fst (notifyWaiters w)) = config w
   \<and> maxChunksInFlight (fst (notifyWaiters w)) = maxChunksInFlight w
   \<and> paused (fst (notifyWaiters w)) = paused w"
  by (simp add: notifyWaiters_def notifyLoop_keeps)

lemma window_ok_new: "window_ok (new_SlidingWindow cfg)"
  by (simp add: window_ok_def new_SlidingWindow_def map_size_def floor_div_def)

lemma fits_le: "fits n x \<Longrightarrow> k \<le> n \<Longrightarrow> fits k x"
  by (cases x) simp_all

lemma window_ok_markSent:
  assumes "window_ok w" and "markSent w idx now = Inr w'"
  shows "window_ok w' \<and> config w' = config w"
proof -
  have ng: "\<not> num_ge (map_size (outstandingChunks w)) (maxChunksInFlight w)"
    and w': "w' = w\<lparr>outstandingChunks := AList.update idx now (outstandingChunks w)\<rparr>"
    using assms(2) by (auto simp: markSent_def split: if_splits)
  let ?m = "floor_div (maxOutstandingBytes (config w)) (chunkSize (config w))"
  have m: "maxChunksInFlight w = ?m"
    using assms(1) by (simp add: window_ok_def)
  have "fits (Suc (map_size (outstandingChunks w))) ?m"
    using ng unfolding m by (cases ?m) simp_all
  then have "fits (map_size (AList.update idx now (outstandingChunks w))) ?m"
    by (rule fits_le) (rule map_size_update_le)
  then show ?thesis
    using m by (simp add: w' window_ok_def)
qed

lemma window_ok_after_notify:
  assumes "window_ok u"
  shows "window_ok (fst (notifyWaiters u)) \<and> config (fst (notifyWaiters u)) = config u"
  using assms by (simp add: window_ok_def notifyWaiters_keeps)

lemma window_ok_onAck:
  assumes "window_ok w"
  shows "window_ok (fst (onAck w idx)) \<and> config (fst (onAck w idx)) = config w"
proof -
  let ?u = "w\<lparr>outstandingChunks := AList.delete idx (outstandingChunks w)\<rparr>"
  have "fits (map_size (AList.delete idx (outstandingChunks w)))
          (floor_div (maxOutstandingBytes (config w)) (chunkSize (config w)))"
    using assms by (intro fits_le [OF _ map_size_delete_le]) (simp add: window_ok_def)
  then have "window_ok ?u"
    using assms by (simp add: window_ok_def)
  from window_ok_after_notify [OF this] show ?thesis
    by (simp add: onAck_def)
qed

lemma window_ok_onAckBatch:
  assumes "window_ok w"
  shows "window_ok (fst (onAckBatch w idxs)) \<and> config (fst (onAckBatch w idxs)) = config w"
proof -
  let ?u = "w\<lparr>outstandingChunks :=
                foldl (\<lambda>m idx. AList.delete idx m) (outstandingChunks w) idxs\<rparr>"
  have "fits (map_size (foldl (\<lambda>m idx. AList.delete idx m) (outstandingChunks w) idxs))
          (floor_div (maxOutstandingBytes (config w)) (chunkSize (config w)))"
    using assms by (intro fits_le [OF _ map_size_foldl_delete_le]) (simp add: window_ok_def)
  then have "window_ok ?u"
    using assms by (simp add: window_ok_def)
  from window_ok_after_notify [OF this] show ?thesis
    by (simp add: onAckBatch_def)
qed

lemma window_ok_resume:
  assumes "window_ok w"
  shows "window_ok (fst (resume w)) \<and> config (fst (resume w)) = config w"
proof -
  have "window_ok (w\<lparr>paused := False\<rparr>)"
    using assms by (simp add: window_ok_def)
  from window_ok_after_notify [OF this] show ?thesis
    by (simp add: resume_def)
qed

lemma window_ok_pause:
  "window_ok w \<Longrightarrow> window_ok (pause w) \<and> config (pause w) = config w"
  by (simp add: pause_def window_ok_def)

lemma window_ok_clear:
  "window_ok w \<Longrightarrow> window_ok (fst (clear w)) \<and> config (fst (clear w)) = config w"
  by (simp add: clear_def window_ok_def map_size_def floor_div_def)

lemma window_ok_waitForSpace:
  "window_ok w \<Longrightarrow>
   window_ok (fst (waitForSpace w wid)) \<and> config (fst (waitForSpace w wid)) = config w"
  by (simp add: waitForSpace_def window_ok_def)

lemma window_ok_step:
  assumes "window_ok w" and "window_step w x = Some w'"
  shows "window_ok w' \<and> config w' = config w"
proof (cases x)
  case (MarkSent idx now)
  have "markSent w idx now = Inr w'"
    using assms(2) unfolding MarkSent by (simp split: if_splits sum.splits)
  then show ?thesis
    by (rule window_ok_markSent [OF assms(1)])
next
  case (OnAck idx)
  then have "w' = fst (onAck w idx)" using assms(2) by simp
  then show ?thesis using window_ok_onAck [OF assms(1)] by simp
next
  case (OnAckBatch idxs)
  then have "w' = fst (onAckBatch w idxs)" using assms(2) by simp
  then show ?thesis using window_ok_onAckBatch [OF assms(1)] by simp
next
  case Pause
  then have "w' = pause w" using assms(2) by simp
  then show ?thesis using window_ok_pause [OF assms(1)] by simp
next
  case Resume
  then have "w' = fst (resume w)" using assms(2) by simp
  then show ?thesis using window_ok_resume [OF assms(1)] by simp
next
  case Clear
  then have "w' = fst (clear w)" using assms(2) by simp
  then show ?thesis using window_ok_clear [OF assms(1)] by simp
next
  case (WaitForSpace wid)
  then have "w' = fst (waitForSpace w wid)" using assms(2) by simp
  then show ?thesis using window_ok_waitForSpace [OF assms(1)] by simp
qed

lemma window_ok_run:
  "window_ok w \<Longrightarrow> window_run w xs = Some w' \<Longrightarrow> window_ok w' \<and> config w' = config w"
proof (induction xs arbitrary: w)
  case Nil
  then show ?case by simp
next
  case (Cons x xs)
  from Cons.prems(2) obtain u where u: "window_step w x = Some u" and r: "window_run u xs = Some w'"
    by (auto split: option.splits)
  from window_ok_step [OF Cons.prems(1) u] Cons.IH [OF _ r] show ?case
    by simp
qed

lemma window_ok_bound:
  assumes "window_ok w"
  shows "outstandingBytes w \<le> maxOutstandingBytes (config w)"
proof (cases "chunkSize (config w) = 0")
  case True
  then show ?thesis by (simp add: outstandingBytes_def)
next
  case False
  then have "map_size (outstandingChunks w) \<le> maxOutstandingBytes (config w) div chunkSize (config w)"
    using assms by (simp add: window_ok_def floor_div_def)
  then have "map_size (outstandingChunks w) * chunkSize (config w)
               \<le> (maxOutstandingBytes (config w) div chunkSize (config w)) * chunkSize (config w)"
    by (rule mult_le_mono1)
  also have "\<dots> \<le> maxOutstandingBytes (config w)"
    by simp
  finally show ?thesis
    by (simp add: outstandingBytes_def)
qed

text \<open>
  C2. In every state that the window reaches from its initial state by a sequence of
  \<open>markSent\<close> (each performed only when \<open>canSend()\<close> is true), \<open>onAck\<close>,
  \<open>onAckBatch\<close>, \<open>pause\<close>, \<open>resume\<close>, \<open>clear\<close> and \<open>waitForSpace\<close> operations, the
  outstanding bytes (the number of chunks sent and not yet acknowledged, times
  \<open>chunkSize\<close>) are at most \<open>maxOutstandingBytes\<close>.
\<close>

theorem window_outstandingBytes_bounded:
  assumes "window_run (new_SlidingWindow cfg) ops = Some w"
  shows "outstandingBytes w \<le> maxOutstandingBytes cfg"
proof -
  have "window_ok w \<and> config w = config (new_SlidingWindow cfg)"
    using window_ok_run [OF window_ok_new assms] .
  then show ?thesis
    using window_ok_bound [of w] by (simp add: new_SlidingWindow_def)
qed

theorem window_outstandingBytes_bounded_witness:
  "window_run (new_SlidingWindow \<lparr>maxOutstandingBytes = 128 * 1024, chunkSize = 64 * 1024\<rparr>)
     [MarkSent 0 10, MarkSent 1 11, WaitForSpace 0, OnAck 0, MarkSent 2 12, Pause, Resume]
   = Some \<lparr>config = \<lparr>maxOutstandingBytes = 128 * 1024, chunkSize = 64 * 1024\<rparr>,
           maxChunksInFlight = Finite 2, outstandingChunks = [(1, 11), (2, 12)],
           waitQueue = [], paused = False\<rparr>
   \<and> outstandingBytes \<lparr>config = \<lparr>maxOutstandingBytes = 128 * 1024, chunkSize = 64 * 1024\<rparr>,
           maxChunksInFlight = Finite 2, outstandingChunks = [(1, 11), (2, 12)],
           waitQueue = [], paused = False\<rparr> \<le> 128 * 1024"
proof -
  have r: "window_run (new_SlidingWindow \<lparr>maxOutstandingBytes = 128 * 1024, chunkSize = 64 * 1024\<rparr>)
     [MarkSent 0 10, MarkSent 1 11, WaitForSpace 0, OnAck 0, MarkSent 2 12, Pause, Resume]
   = Some \<lparr>config = \<lparr>maxOutstandingBytes = 128 * 1024, chunkSize = 64 * 1024\<rparr>,
           maxChunksInFlight = Finite 2, outstandingChunks = [(1, 11), (2, 12)],
           waitQueue = [], paused = False\<rparr>"
    by (simp add: new_SlidingWindow_def floor_div_def canSend_def markSent_def map_size_def
        waitForSpace_def onAck_def notifyWaiters_def pause_def resume_def)
  show ?thesis
    using r window_outstandingBytes_bounded [OF r] by simp
qed

section \<open>Receiver properties\<close>

lemma example_receiver_eq:
  "example_receiver =
     \<lparr>rx_config = \<lparr>ackBatchSize = 1, nackTimeoutMs = 2000\<rparr>,
      rx_dataChannel = Some (open_channel\<lparr>sent := [TextFrame (Control Ready)]\<rparr>),
      rx_onProgress = Some [Transferring], fileMeta = Some example_meta,
      receivedRanges = Some (new_ReceivedRanges 3), chunks = [], receivedBytes = 0,
      rx_startTime = Some 0, writableStream = None, pendingAcks = [], nackTimer = True,
      downloaded = None\<rparr>"
  by (simp add: example_receiver_def handleFileMetadata_def rx_initialize_def new_Receiver_def
      rx_updateProgress_def sendControl_def channel_send_def open_channel_def example_meta_def Let_def)

lemma frame0: "encodeChunk 0 (Uint8Array_of [170]) = [0,0,0,0,0,0,0,1,170]"
  by (simp add: encodeChunk_def setUint32_be_def Uint8Array_of_def u8_bytes_def)

lemma dec0: "decodeChunk [0,0,0,0,0,0,0,1,170] =
   Inr \<lparr>chunkIndex = 0, payload = \<lparr>buffer = [0,0,0,0,0,0,0,1,170], byteOffset = 8, byteLength = 1\<rparr>\<rparr>"
  by (simp add: decodeChunk_def getUint32_be_def HEADER_SIZE_def)


lemma handleBinaryChunk_no_metadata:
  assumes "fileMeta r = None \<or> receivedRanges r = None"
  shows "handleBinaryChunk r buf = r"
  using assms by (auto simp: handleBinaryChunk_def split: option.splits)

text \<open>
  C10. A binary chunk frame delivered before any \<open>file-meta\<close> message (no metadata or no
  received-ranges tracker yet) is dropped: the message handler returns the receiver
  unchanged in every field, among them the chunk storage, the received ranges,
  \<open>receivedBytes\<close> and the pending ACKs. The handler is a total function of the receiver
  state, so no exception leaves it.
\<close>

theorem chunk_before_metadata_dropped:
  assumes "fileMeta r = None \<or> receivedRanges r = None"
  shows "handleDataChannelMessage r (BinaryData buf) now = r"
  using handleBinaryChunk_no_metadata [OF assms]
  by (simp add: handleDataChannelMessage_def)

theorem chunk_before_metadata_dropped_witness:
  "(fileMeta (rx_initialize (new_Receiver DEFAULT_RECEIVER_CONFIG) open_channel) = None
    \<or> receivedRanges (rx_initialize (new_Receiver DEFAULT_RECEIVER_CONFIG) open_channel) = None)
   \<and> handleDataChannelMessage (rx_initialize (new_Receiver DEFAULT_RECEIVER_CONFIG) open_channel)
        (BinaryData (encodeChunk 0 (Uint8Array_of [170]))) 5
      = rx_initialize (new_Receiver DEFAULT_RECEIVER_CONFIG) open_channel"
proof -
  have h: "fileMeta (rx_initialize (new_Receiver DEFAULT_RECEIVER_CONFIG) open_channel) = None
    \<or> receivedRanges (rx_initialize (new_Receiver DEFAULT_RECEIVER_CONFIG) open_channel) = None"
    by (simp add: rx_initialize_def new_Receiver_def)
  show ?thesis
    using h chunk_before_metadata_dropped [OF h] by simp
qed






lemma frame2: "encodeChunk 2 (Uint8Array_of [170]) = [0,0,0,2,0,0,0,1,170]"
  by (simp add: encodeChunk_def setUint32_be_def Uint8Array_of_def u8_bytes_def)

lemma dec2: "decodeChunk [0,0,0,2,0,0,0,1,170] =
   Inr \<lparr>chunkIndex = 2, payload = \<lparr>buffer = [0,0,0,2,0,0,0,1,170], byteOffset = 8, byteLength = 1\<rparr>\<rparr>"
  by (simp add: decodeChunk_def getUint32_be_def HEADER_SIZE_def)

text \<open>
  C1 on the seekable-sink path, evaluated: the frame of chunk 2 with the one-byte
  payload \<open>0xAA\<close> decodes to index 2 and that payload, and the receiver writes at offset
  \<open>2 * CHUNK_SIZE\<close> the nine bytes of the whole frame, header included.
\<close>

theorem writeChunkToDisk_writes_frame_header:
  "map_sum id (\<lambda>d. (chunkIndex d, u8_bytes (payload d)))
      (decodeChunk (encodeChunk 2 (Uint8Array_of [170]))) = Inr (2, [170])
   \<and> map_option written
        (writableStream
           (handleDataChannelMessage (fileHandleGranted example_receiver)
              (BinaryData (encodeChunk 2 (Uint8Array_of [170]))) 7))
      = Some [(2 * CHUNK_SIZE, [0, 0, 0, 2, 0, 0, 0, 1, 170])]"
  unfolding frame2
  by (simp add: handleDataChannelMessage_def fileHandleGranted_def example_receiver_eq
      handleBinaryChunk_def dec2 hasChunk_def new_ReceivedRanges_def writeChunkToDisk_def
      markReceived_def set_add_def updateRanges_def sendAcks_def channel_send_def open_channel_def
      rx_updateProgress_def isComplete_def example_meta_def Let_def u8_bytes_def Uint8Array_of_def)

text \<open>
  The chunk that completes a transfer on the sink path: the sink is closed before the
  suspended \<open>writeChunkToDisk\<close> reaches its \<open>write\<close>, and nothing is written for it.
\<close>

lemma completing_chunk_not_written:
  "writableStream
     (handleDataChannelMessage single_chunk_receiver
        (BinaryData (encodeChunk 0 (Uint8Array_of [170]))) 7)
   = Some \<lparr>written = [], stream_closed = True\<rparr>"
  unfolding frame0
  by (simp add: handleDataChannelMessage_def single_chunk_receiver_def fileHandleGranted_def
      handleFileMetadata_def rx_initialize_def new_Receiver_def sendControl_def
      handleBinaryChunk_def dec0 hasChunk_def new_ReceivedRanges_def writeChunkToDisk_def
      markReceived_def set_add_def updateRanges_def sendAcks_def channel_send_def open_channel_def
      rx_updateProgress_def isComplete_def completeTransfer_def Let_def)

section \<open>Sender properties\<close>

lemma calculateTotalChunks_0: "calculateTotalChunks 0 = 0"
  by (simp add: calculateTotalChunks_def CHUNK_SIZE_def)

text \<open>
  C4, evaluated on a zero-byte file: \<open>sendFile\<close> computes \<open>totalChunks = 0\<close>, sends the
  \<open>file-meta\<close> message and no binary chunk, and its send loop returns at once; but the
  promise it returns is still pending and the sender still reports \<open>transferring\<close>;
  resuming the loop or a \<open>bufferedamountlow\<close> event leaves it pending. Only \<open>handleAck\<close>
  resolves the promise, and no chunk exists for which an ACK could arrive.
\<close>

theorem sendFile_empty_file_stays_pending:
  "map_sum id (\<lambda>s. (tx_totalChunks s, map_option sent (tx_dataChannel s), sendLoopState s,
                        sending s, tx_onProgress s, transferPromise s,
                        transferPromise (onbufferedamountlow (sendLoop_resume s 1))))
     (sendFile example_sender empty_file 0)
   = Inr (0,
          Some [TextFrame (FileMeta \<lparr>meta_name = ''empty.txt'', meta_size = 0,
                                     meta_mimeType = ''text/plain'', meta_totalChunks = 0\<rparr>)],
          LoopReturned, True, Some [Transferring], Pending, Pending)"
  by (simp add: sendFile_def example_sender_def tx_initialize_def new_Sender_def open_channel_def
      empty_file_def file_size_def calculateTotalChunks_0 channel_send_def createFileMetadata_def
      tx_updateProgress_def sendLoop_head_def sendLoop_resume_def onbufferedamountlow_def Let_def)

lemma sendFile_promise_pending:
  assumes "sendFile s f now = Inr s'"
  shows "transferPromise s' = Pending"
  using assms
  by (auto simp: sendFile_def sendLoop_head_def Let_def split: option.splits if_splits sum.splits prod.splits)

lemma clear_calls_no_waiter: "snd (clear w) = []"
  by (simp add: clear_def)

lemma calculateTotalChunks_1: "calculateTotalChunks (Suc 0) = Suc 0"
  by (simp add: calculateTotalChunks_def CHUNK_SIZE_def)

lemma waiting_sender_eq:
  "waiting_sender =
     \<lparr>tx_config = DEFAULT_SENDER_CONFIG,
      window = \<lparr>config = \<lparr>maxOutstandingBytes = 8388608, chunkSize = 65536\<rparr>,
                maxChunksInFlight = Finite 128, outstandingChunks = [], waitQueue = [0],
                paused = True\<rparr>,
      tx_dataChannel =
        Some \<lparr>readyState = Open,
              sent = [TextFrame (FileMeta \<lparr>meta_name = ''a.bin'', meta_size = 1,
                                           meta_mimeType = ''application/octet-stream'',
                                           meta_totalChunks = 1\<rparr>)],
              bufferedAmount = 0, bufferedAmountLowThreshold = 262144\<rparr>,
      tx_file = Some one_byte_file, currentChunkIndex = 0, tx_totalChunks = 1, sentBytes = 0,
      tx_startTime = Some 0, tx_onProgress = Some [Transferring], sending = True,
      cancelled = False, transferResolver = True, transferRejecter = True,
      transferPromise = Pending, bufferLowResolver = False, sendLoopState = AwaitSpace False,
      retransmitReads = []\<rparr>"
  by (simp add: waiting_sender_def sendFile_def handleMessage_def handleControl_def pause_def
      example_sender_def tx_initialize_def new_Sender_def new_SlidingWindow_def
      merge_flow_config_def DEFAULT_FLOW_CONFIG_def DEFAULT_SENDER_CONFIG_def floor_div_def
      CHUNK_SIZE_def open_channel_def one_byte_file_def file_size_def calculateTotalChunks_1
      channel_send_def createFileMetadata_def tx_updateProgress_def sendLoop_head_def
      waitForSpace_def canSend_def Let_def)

text \<open>
  C6, evaluated: a send loop is suspended in \<open>waitForSpace\<close> with its waiter queued.
  \<open>cancel()\<close> clears the window: the outstanding set and the wait queue are empty and
  \<open>paused\<close> is false. But \<open>clear\<close> calls no waiter, so the suspended loop is not made
  resumable: it stays where it was and never reaches its check of the cancel flag.
\<close>

theorem cancel_drops_waiter_unresolved:
  "waitQueue (window waiting_sender) = [0]
   \<and> sendLoopState waiting_sender = AwaitSpace False
   \<and> snd (clear (window waiting_sender)) = []
   \<and> outstandingChunks (window (cancel waiting_sender)) = []
   \<and> paused (window (cancel waiting_sender)) = False
   \<and> waitQueue (window (cancel waiting_sender)) = []
   \<and> sendLoopState (cancel waiting_sender) = AwaitSpace False
   \<and> sendLoop_resume (cancel waiting_sender) 9 = cancel waiting_sender"
  by (simp add: waiting_sender_eq cancel_def wake_def clear_def tx_updateProgress_def
      sendLoop_resume_def Let_def)

section \<open>Session registry properties\<close>

lemma upt6: "[0..<PIN_LENGTH] = [0, 1, 2, 3, 4, 5]"
  by (simp add: PIN_LENGTH_def upt_conv_Cons)

lemma generate_unfold:
  "generate rnd pos =
     map (\<lambda>i. PIN_CHARS ! (rnd (pos + i) mod 32)) [0, 1, 2, 3, 4, 5]"
  by (simp add: generate_def upt6 PIN_CHARS_def)

lemma key_neq: "PIN_KEY_PREFIX @ p \<noteq> CONN_KEY_PREFIX @ c"
  by (simp add: PIN_KEY_PREFIX_def CONN_KEY_PREFIX_def)

lemma createSession_loop_diverges:
  assumes "\<forall>p. redis_exists db (PIN_KEY_PREFIX @ generate rnd p)"
  shows "createSession_loop db rnd pos = None"
proof (cases "createSession_loop db rnd pos")
  case None
  then show ?thesis .
next
  case (Some y)
  have "\<not> (\<forall>p. redis_exists db (PIN_KEY_PREFIX @ generate rnd p))"
    by (rule createSession_loop.raw_induct
          [where P = "\<lambda>d r p y. \<not> (\<forall>q. redis_exists d (PIN_KEY_PREFIX @ generate r q))",
           OF _ Some])
       (auto split: if_splits)
  with assms show ?thesis by simp
qed

lemma createSession_loop_finds:
  assumes "\<forall>j<k. redis_exists db (PIN_KEY_PREFIX @ generate rnd (pos + PIN_LENGTH * j))"
    and "\<not> redis_exists db (PIN_KEY_PREFIX @ generate rnd (pos + PIN_LENGTH * k))"
  shows "createSession_loop db rnd pos
           = Some (generate rnd (pos + PIN_LENGTH * k), pos + PIN_LENGTH * (k + 1))"
  using assms
proof (induction k arbitrary: pos)
  case 0
  then show ?case
    by (subst createSession_loop.simps) simp
next
  case (Suc k)
  have first: "redis_exists db (PIN_KEY_PREFIX @ generate rnd pos)"
    using Suc.prems(1) by (auto dest: spec [of _ 0])
  have "createSession_loop db rnd (pos + PIN_LENGTH)
          = Some (generate rnd (pos + PIN_LENGTH + PIN_LENGTH * k),
                  pos + PIN_LENGTH + PIN_LENGTH * (k + 1))"
  proof (rule Suc.IH)
    show "\<forall>j<k. redis_exists db (PIN_KEY_PREFIX @ generate rnd (pos + PIN_LENGTH + PIN_LENGTH * j))"
    proof (intro allI impI)
      fix j assume "j < k"
      then have "Suc j < Suc k" by simp
      with Suc.prems(1) have "redis_exists db (PIN_KEY_PREFIX @ generate rnd (pos + PIN_LENGTH * Suc j))"
        by blast
      then show "redis_exists db (PIN_KEY_PREFIX @ generate rnd (pos + PIN_LENGTH + PIN_LENGTH * j))"
        by (simp add: add.assoc)
    qed
    show "\<not> redis_exists db (PIN_KEY_PREFIX @ generate rnd (pos + PIN_LENGTH + PIN_LENGTH * k))"
      using Suc.prems(2) by (simp add: add.assoc)
  qed
  then show ?case
    using first by (subst createSession_loop.simps) (simp add: add.assoc)
qed

lemma registered_db_created:
  "createSession \<lparr>store = Map.empty, ttl = Map.empty\<rparr> (\<lambda>i. 0) 0 ''conn-1''
     = Some (Inr (''AAAAAA'', registered_db, 6))"
proof -
  have "createSession_loop \<lparr>store = Map.empty, ttl = Map.empty\<rparr> (\<lambda>i. 0) 0
          = Some (''AAAAAA'', 6)"
    by (subst createSession_loop.simps)
       (simp add: generate_unfold PIN_CHARS_def redis_exists_def PIN_LENGTH_def)
  then show ?thesis
    by (simp add: createSession_def redis_hset_def redis_expire_def redis_setex_def
        redis_exists_def registered_db_def PIN_KEY_PREFIX_def CONN_KEY_PREFIX_def TTL_SECONDS_def)
qed

lemma paired_db_joined:
  "joinSession registered_db ''AAAAAA'' ''conn-2'' = Inr (True, paired_db)"
  by (simp add: joinSession_def redis_hset_def redis_expire_def redis_setex_def
      redis_exists_def registered_db_def paired_db_def PIN_KEY_PREFIX_def CONN_KEY_PREFIX_def
      TTL_SECONDS_def)

lemma joinSession_existing:
  assumes "store d (PIN_KEY_PREFIX @ pin) = Some (RHash hs)"
  shows "joinSession d pin c =
           Inr (True,
                d\<lparr>store := (store d)(PIN_KEY_PREFIX @ pin \<mapsto>
                                         RHash (AList.update ''receiverConnId'' c hs),
                                       CONN_KEY_PREFIX @ c \<mapsto> RString pin),
                  ttl := (ttl d)(PIN_KEY_PREFIX @ pin \<mapsto> TTL_SECONDS,
                                 CONN_KEY_PREFIX @ c \<mapsto> TTL_SECONDS)\<rparr>)"
  using assms
  by (simp add: joinSession_def redis_exists_def redis_hset_def redis_expire_def redis_setex_def)

lemma getSession_after_join:
  "getSession
     (d\<lparr>store := (store d)(PIN_KEY_PREFIX @ pin \<mapsto> RHash hs',
                            CONN_KEY_PREFIX @ c \<mapsto> RString pin),
        ttl := t\<rparr>) pin = Inr hs'"
  by (simp add: getSession_def redis_hgetAll_def key_neq)

text \<open>
  C7, as amended. A second \<open>joinSession\<close> on a session whose \<open>receiverConnId\<close> is already
  set is not rejected with \<open>SessionFull\<close>; the join succeeds. \<open>joinSession\<close> returns true
  and leaves the store with the \<open>receiverConnId\<close> of the session overwritten by the joining
  connection, the time to live of the PIN key refreshed, and the reverse mapping of the
  joining connection written with the same time to live. The handler of the \<open>join\<close>
  request keeps that store and sends \<open>peer-joined\<close> to the session's sender and then
  \<open>joined\<close>, not an error, to the joining connection.
\<close>

theorem second_join_succeeds:
  assumes "store (sessionRepository h) (PIN_KEY_PREFIX @ pin) = Some (RHash hs)"
    and "map_of hs ''receiverConnId'' = Some old"
    and "message_type message = ''join''"
    and "map_of message ''pin'' = Some pin"
  shows "joinSession (sessionRepository h) pin c =
           Inr (True,
                (sessionRepository h)
                  \<lparr>store := (store (sessionRepository h))
                      (PIN_KEY_PREFIX @ pin \<mapsto> RHash (AList.update ''receiverConnId'' c hs),
                       CONN_KEY_PREFIX @ c \<mapsto> RString pin),
                   ttl := (ttl (sessionRepository h))
                      (PIN_KEY_PREFIX @ pin \<mapsto> TTL_SECONDS,
                       CONN_KEY_PREFIX @ c \<mapsto> TTL_SECONDS)\<rparr>)
     \<and> map_of (AList.update ''receiverConnId'' c hs) ''receiverConnId'' = Some c
     \<and> handleMessage_ws nfkc rnd h c (JsonBody message) =
         Some (Inr (sendMessage
                      (sendMessage
                         (h\<lparr>sessionRepository :=
                              (sessionRepository h)
                                \<lparr>store := (store (sessionRepository h))
                                    (PIN_KEY_PREFIX @ pin \<mapsto>
                                       RHash (AList.update ''receiverConnId'' c hs),
                                     CONN_KEY_PREFIX @ c \<mapsto> RString pin),
                                 ttl := (ttl (sessionRepository h))
                                    (PIN_KEY_PREFIX @ pin \<mapsto> TTL_SECONDS,
                                     CONN_KEY_PREFIX @ c \<mapsto> TTL_SECONDS)\<rparr>\<rparr>)
                         (map_of hs ''senderConnId'') PeerJoined)
                      (Some c) Joined))"
proof -
  note j = joinSession_existing [OF assms(1), of c]
  have sender: "map_of (AList.update ''receiverConnId'' c hs) ''senderConnId''
                  = map_of hs ''senderConnId''"
    by (simp add: update_conv')
  have stored: "map_of (AList.update ''receiverConnId'' c hs) ''receiverConnId'' = Some c"
    by (simp add: update_conv')
  have "handleJoin h c message =
          Inr (sendMessage
                 (sendMessage
                    (h\<lparr>sessionRepository :=
                         (sessionRepository h)
                           \<lparr>store := (store (sessionRepository h))
                               (PIN_KEY_PREFIX @ pin \<mapsto>
                                  RHash (AList.update ''receiverConnId'' c hs),
                                CONN_KEY_PREFIX @ c \<mapsto> RString pin),
                            ttl := (ttl (sessionRepository h))
                               (PIN_KEY_PREFIX @ pin \<mapsto> TTL_SECONDS,
                                CONN_KEY_PREFIX @ c \<mapsto> TTL_SECONDS)\<rparr>\<rparr>)
                    (map_of hs ''senderConnId'') PeerJoined)
                 (Some c) Joined)"
    using assms(4) by (simp add: handleJoin_def j getSession_after_join sender)
  then have "handleMessage_ws nfkc rnd h c (JsonBody message) =
         Some (Inr (sendMessage
                      (sendMessage
                         (h\<lparr>sessionRepository :=
                              (sessionRepository h)
                                \<lparr>store := (store (sessionRepository h))
                                    (PIN_KEY_PREFIX @ pin \<mapsto>
                                       RHash (AList.update ''receiverConnId'' c hs),
                                     CONN_KEY_PREFIX @ c \<mapsto> RString pin),
                                 ttl := (ttl (sessionRepository h))
                                    (PIN_KEY_PREFIX @ pin \<mapsto> TTL_SECONDS,
                                     CONN_KEY_PREFIX @ c \<mapsto> TTL_SECONDS)\<rparr>\<rparr>)
                         (map_of hs ''senderConnId'') PeerJoined)
                      (Some c) Joined))"
    using assms(3) by (simp add: handleMessage_ws_def)
  with j stored show ?thesis by simp
qed

theorem second_join_succeeds_witness:
  "store (sessionRepository paired_handler) (PIN_KEY_PREFIX @ ''AAAAAA'')
     = Some (RHash [(''senderConnId'', ''conn-1''), (''receiverConnId'', ''conn-2'')])
   \<and> map_of [(''senderConnId'', ''conn-1''), (''receiverConnId'', ''conn-2'')] ''receiverConnId''
       = Some ''conn-2''
   \<and> message_type [(''action'', ''join''), (''pin'', ''AAAAAA'')] = ''join''
   \<and> map_of [(''action'', ''join''), (''pin'', ''AAAAAA'')] ''pin'' = Some ''AAAAAA''
   \<and> map_sum id
        (\<lambda>(ok, d). (ok, store d ''pin:AAAAAA'', store d ''connection:conn-3'',
                     ttl d ''pin:AAAAAA'', ttl d ''connection:conn-3''))
        (joinSession (sessionRepository paired_handler) ''AAAAAA'' ''conn-3'')
       = Inr (True,
              Some (RHash [(''senderConnId'', ''conn-1''), (''receiverConnId'', ''conn-3'')]),
              Some (RString ''AAAAAA''), Some 600, Some 600)
   \<and> map_option
        (map_sum id
           (\<lambda>h'. (posted h', store (sessionRepository h') ''pin:AAAAAA'',
                   store (sessionRepository h') ''connection:conn-3'')))
        (handleMessage_ws nfkc_ascii (\<lambda>i. 0) paired_handler ''conn-3''
           (JsonBody [(''action'', ''join''), (''pin'', ''AAAAAA'')]))
       = Some (Inr ([(''conn-1'', PeerJoined), (''conn-3'', Joined)],
                    Some (RHash [(''senderConnId'', ''conn-1''), (''receiverConnId'', ''conn-3'')]),
                    Some (RString ''AAAAAA'')))"
proof -
  have a: "store (sessionRepository paired_handler) (PIN_KEY_PREFIX @ ''AAAAAA'')
     = Some (RHash [(''senderConnId'', ''conn-1''), (''receiverConnId'', ''conn-2'')])"
    by (simp add: paired_handler_def paired_db_def PIN_KEY_PREFIX_def)
  have b: "map_of [(''senderConnId'', ''conn-1''), (''receiverConnId'', ''conn-2'')] ''receiverConnId''
       = Some ''conn-2''"
    by simp
  have c: "message_type [(''action'', ''join''), (''pin'', ''AAAAAA'')] = ''join''"
    by (simp add: message_type_def)
  have d: "map_of [(''action'', ''join''), (''pin'', ''AAAAAA'')] ''pin'' = Some ''AAAAAA''"
    by simp
  show ?thesis
    using a b c d
      second_join_succeeds [OF a b c d, of "''conn-3''" nfkc_ascii "\<lambda>i. 0"]
    by (simp add: sendMessage_def paired_handler_def PIN_KEY_PREFIX_def CONN_KEY_PREFIX_def
        TTL_SECONDS_def)
qed

text \<open>
  C7 as stated fails: on the session of PIN \<open>AAAAAA\<close>, paired with \<open>conn-2\<close>, the join of
  \<open>conn-3\<close> succeeds; the stored receiver becomes \<open>conn-3\<close>, the sender is told
  \<open>peer-joined\<close> and \<open>conn-3\<close> is told \<open>joined\<close>, not an error.
\<close>

theorem second_join_not_rejected_counterexample:
  "map_sum id fst (joinSession paired_db ''AAAAAA'' ''conn-3'') = Inr True
   \<and> map_option (map_sum id (\<lambda>h'. (posted h', getSession (sessionRepository h') ''AAAAAA'')))
       (handleMessage_ws nfkc_ascii (\<lambda>i. 0) paired_handler ''conn-3''
          (JsonBody [(''action'', ''join''), (''pin'', ''AAAAAA'')]))
     = Some (Inr ([(''conn-1'', PeerJoined), (''conn-3'', Joined)],
                  Inr [(''senderConnId'', ''conn-1''), (''receiverConnId'', ''conn-3'')]))"
  by (simp add: handleMessage_ws_def message_type_def handleJoin_def joinSession_def
      paired_handler_def paired_db_def redis_exists_def redis_hset_def redis_expire_def
      redis_setex_def getSession_def redis_hgetAll_def sendMessage_def PIN_KEY_PREFIX_def
      CONN_KEY_PREFIX_def TTL_SECONDS_def)

text \<open>
  C8, as amended. \<open>createSession\<close> retries on collision without a retry budget: when
  the first \<open>k\<close> candidates collide and the next one is free, for any \<open>k\<close>, it returns
  that candidate after writing the session hash, its time to live and the reverse
  mapping. It has no \<open>CapacityExceeded\<close> outcome.
\<close>

theorem createSession_retries_until_free:
  assumes "\<forall>j<k. redis_exists d (PIN_KEY_PREFIX @ generate rnd (pos + PIN_LENGTH * j))"
    and "\<not> redis_exists d (PIN_KEY_PREFIX @ generate rnd (pos + PIN_LENGTH * k))"
  shows "createSession d rnd pos c =
           Some (Inr (generate rnd (pos + PIN_LENGTH * k),
                      d\<lparr>store := (store d)
                            (PIN_KEY_PREFIX @ generate rnd (pos + PIN_LENGTH * k) \<mapsto>
                               RHash [(''senderConnId'', c)],
                             CONN_KEY_PREFIX @ c \<mapsto> RString (generate rnd (pos + PIN_LENGTH * k))),
                        ttl := (ttl d)
                            (PIN_KEY_PREFIX @ generate rnd (pos + PIN_LENGTH * k) \<mapsto> TTL_SECONDS,
                             CONN_KEY_PREFIX @ c \<mapsto> TTL_SECONDS)\<rparr>,
                      pos + PIN_LENGTH * (k + 1)))"
proof -
  have free: "store d (PIN_KEY_PREFIX @ generate rnd (pos + PIN_LENGTH * k)) = None"
    using assms(2) by (simp add: redis_exists_def)
  show ?thesis
    by (simp add: createSession_def createSession_loop_finds [OF assms] redis_hset_def free
        redis_expire_def redis_exists_def redis_setex_def)
qed

lemma generate_nine_collisions_low:
  "pos + 5 < 54 \<Longrightarrow> generate nine_collisions pos = ''AAAAAA''"
  by (simp add: generate_unfold nine_collisions_def PIN_CHARS_def)

lemma generate_nine_collisions_high:
  "54 \<le> pos \<Longrightarrow> generate nine_collisions pos = ''BBBBBB''"
  by (simp add: generate_unfold nine_collisions_def PIN_CHARS_def)

theorem createSession_retries_until_free_witness:
  "\<not> redis_exists registered_db (PIN_KEY_PREFIX @ generate nine_collisions (0 + PIN_LENGTH * 9))
   \<and> map_option (map_sum id (\<lambda>(pin, d, pos). (pin, pos)))
        (createSession registered_db nine_collisions 0 ''conn-9'')
       = Some (Inr (''BBBBBB'', 60))"
proof -
  have a: "\<forall>j<9. redis_exists registered_db
                    (PIN_KEY_PREFIX @ generate nine_collisions (0 + PIN_LENGTH * j))"
  proof (intro allI impI)
    fix j :: nat assume "j < 9"
    then have "0 + PIN_LENGTH * j + 5 < 54"
      by (simp add: PIN_LENGTH_def)
    then have "generate nine_collisions (0 + PIN_LENGTH * j) = ''AAAAAA''"
      by (rule generate_nine_collisions_low)
    then show "redis_exists registered_db
                 (PIN_KEY_PREFIX @ generate nine_collisions (0 + PIN_LENGTH * j))"
      by (simp add: redis_exists_def registered_db_def PIN_KEY_PREFIX_def)
  qed
  have g: "generate nine_collisions (0 + PIN_LENGTH * 9) = ''BBBBBB''"
    by (rule generate_nine_collisions_high) (simp add: PIN_LENGTH_def)
  have b: "\<not> redis_exists registered_db
               (PIN_KEY_PREFIX @ generate nine_collisions (0 + PIN_LENGTH * 9))"
    unfolding g by (simp add: redis_exists_def registered_db_def PIN_KEY_PREFIX_def CONN_KEY_PREFIX_def)
  have "createSession registered_db nine_collisions 0 ''conn-9'' =
           Some (Inr (generate nine_collisions (0 + PIN_LENGTH * 9),
                      registered_db\<lparr>store := (store registered_db)
                            (PIN_KEY_PREFIX @ generate nine_collisions (0 + PIN_LENGTH * 9) \<mapsto>
                               RHash [(''senderConnId'', ''conn-9'')],
                             CONN_KEY_PREFIX @ ''conn-9'' \<mapsto>
                               RString (generate nine_collisions (0 + PIN_LENGTH * 9))),
                        ttl := (ttl registered_db)
                            (PIN_KEY_PREFIX @ generate nine_collisions (0 + PIN_LENGTH * 9) \<mapsto> TTL_SECONDS,
                             CONN_KEY_PREFIX @ ''conn-9'' \<mapsto> TTL_SECONDS)\<rparr>,
                      0 + PIN_LENGTH * (9 + 1)))"
    by (rule createSession_retries_until_free [OF a b])
  then have "map_option (map_sum id (\<lambda>(pin, d, pos). (pin, pos)))
        (createSession registered_db nine_collisions 0 ''conn-9'')
       = Some (Inr (''BBBBBB'', 60))"
    unfolding g by (simp add: PIN_LENGTH_def)
  with b show ?thesis by blast
qed

text \<open>
  C8 as stated fails: with a random source whose every candidate collides, the call
  never leaves its loop; it does not stop after a budget of attempts and does not fail.
\<close>

theorem createSession_no_retry_budget_counterexample:
  "createSession registered_db (\<lambda>i. 0) 0 ''conn-9'' = None"
proof -
  have "\<forall>p. redis_exists registered_db (PIN_KEY_PREFIX @ generate (\<lambda>i. 0) p)"
    by (simp add: generate_unfold PIN_CHARS_def redis_exists_def registered_db_def PIN_KEY_PREFIX_def)
  then have "createSession_loop registered_db (\<lambda>i. 0) 0 = None"
    by (rule createSession_loop_diverges)
  then show ?thesis
    by (simp add: createSession_def)
qed

section \<open>PIN validation properties\<close>

lemma dropWhile_none: "\<forall>x\<in>set xs. \<not> P x \<Longrightarrow> dropWhile P xs = xs"
  by (cases xs) auto

lemma trim_none:
  assumes "\<forall>x\<in>set xs. \<not> P x"
  shows "rev (dropWhile P (rev (dropWhile P xs))) = xs"
proof -
  have "dropWhile P xs = xs"
    using assms by (rule dropWhile_none)
  moreover have "dropWhile P (rev xs) = rev xs"
    using assms by (intro dropWhile_none) simp
  ultimately show ?thesis by simp
qed

lemma java_trim_id: "\<forall>c\<in>set t. 32 < code_unit c \<Longrightarrow> java_trim t = t"
  unfolding java_trim_def by (rule trim_none) (simp add: not_le)

lemma js_trim_id: "\<forall>c\<in>set t. \<not> js_isSpace c \<Longrightarrow> js_trim t = t"
  unfolding js_trim_def by (rule trim_none)

lemma char_of_nat_eq: "(char_of (n::nat) = c) = (n mod 256 = of_char c)"
proof
  assume "char_of n = c"
  then have "of_char (char_of n) = (of_char c :: nat)" by simp
  then show "n mod 256 = of_char c" by (simp only: of_char_of)
next
  assume "n mod 256 = of_char c"
  then have "char_of (n mod 256) = char_of (of_char c :: nat)" by simp
  then show "char_of n = c" by (simp only: char_of_mod_256 char_of_char)
qed

lemma isValid_chars_lower:
  "\<exists>c\<in>set t. isLetter c \<and> isLowerCase c \<Longrightarrow> \<not> isValid_chars t"
  by (induction t) auto

lemma pin_char_code:
  assumes "c \<in> set PIN_CHARACTERS"
  shows "(65 \<le> code_unit c \<and> code_unit c \<le> 90) \<or> (50 \<le> code_unit c \<and> code_unit c \<le> 57)"
  using assms by (auto simp: PIN_CHARACTERS_def code_unit_def)

lemma lower_char_code:
  assumes "c \<in> set PIN_CHARACTERS"
  shows "code_unit (if 65 \<le> code_unit c \<and> code_unit c \<le> 90 then char_of (code_unit c + 32) else c)
           = (if 65 \<le> code_unit c \<and> code_unit c \<le> 90 then code_unit c + 32 else code_unit c)"
  by (simp add: code_unit_def)

lemma lower_codes:
  assumes "set s \<subseteq> set PIN_CHARACTERS" and "d \<in> set (toLowerCase_ascii s)"
  shows "(97 \<le> code_unit d \<and> code_unit d \<le> 122) \<or> (50 \<le> code_unit d \<and> code_unit d \<le> 57)"
proof -
  from assms(2) obtain c where c: "c \<in> set s"
    and d: "d = (if 65 \<le> code_unit c \<and> code_unit c \<le> 90 then char_of (code_unit c + 32) else c)"
    by (auto simp: toLowerCase_ascii_def)
  from c assms(1) have "c \<in> set PIN_CHARACTERS" by blast
  from pin_char_code [OF this] lower_char_code [OF this] show ?thesis
    unfolding d by auto
qed

lemma lower_letter:
  assumes "c \<in> set PIN_CHARACTERS" and "isLetter c"
  shows "isLetter (char_of (code_unit c + 32)) \<and> isLowerCase (char_of (code_unit c + 32))
         \<and> 65 \<le> code_unit c \<and> code_unit c \<le> 90"
proof -
  have r: "65 \<le> code_unit c \<and> code_unit c \<le> 90"
    using pin_char_code [OF assms(1)] assms(2) by (auto simp: isLetter_def)
  then have "code_unit (char_of (code_unit c + 32)) = code_unit c + 32"
    by (simp add: code_unit_def)
  with r show ?thesis
    by (simp add: isLetter_def isLowerCase_def)
qed

text \<open>
  C9, as amended. \<open>PinValidator.isValid\<close> normalises by NFKC and trim only, without
  case-folding: for every 6-character string over the alphabet that contains at least
  one letter, its lower-case rendition is judged invalid. The front end's
  \<open>validatePin\<close> upper-cases its input before it checks, and accepts the same lower-case
  rendition. (The hypotheses on the library functions say that NFKC leaves the two
  ASCII strings alone and that upper-casing undoes the lower-casing.)
\<close>

theorem lowercase_pin_rejected_by_isValid:
  assumes "length s = PIN_LENGTH" and "set s \<subseteq> set PIN_CHARACTERS"
    and "\<exists>c\<in>set s. isLetter c"
    and "nfkc (toLowerCase_ascii s) = toLowerCase_ascii s"
    and "toUpperCase (toLowerCase_ascii s) = s" and "nfkc s = s"
  shows "\<not> isValid nfkc (Some (toLowerCase_ascii s))
         \<and> validatePin toUpperCase nfkc (toLowerCase_ascii s)"
proof -
  let ?t = "toLowerCase_ascii s"
  have codes: "\<forall>d\<in>set ?t. (97 \<le> code_unit d \<and> code_unit d \<le> 122)
                           \<or> (50 \<le> code_unit d \<and> code_unit d \<le> 57)"
    using lower_codes [OF assms(2)] by blast
  then have jt: "java_trim ?t = ?t"
    by (intro java_trim_id) auto
  have st: "js_trim ?t = ?t"
    using codes by (intro js_trim_id) (auto simp: js_isSpace_def)
  from assms(3) obtain c where c: "c \<in> set s" and l: "isLetter c" by blast
  from c assms(2) have "c \<in> set PIN_CHARACTERS" by blast
  note ll = lower_letter [OF this l]
  have "char_of (code_unit c + 32) \<in> set ?t"
    using c ll by (force simp: toLowerCase_ascii_def)
  with ll have "\<exists>d\<in>set ?t. isLetter d \<and> isLowerCase d" by blast
  then have "\<not> isValid_chars ?t"
    by (rule isValid_chars_lower)
  then have a: "\<not> isValid nfkc (Some ?t)"
    by (simp add: isValid_def normalize_pin_def assms(4) jt Let_def)
  have b: "validatePin toUpperCase nfkc ?t"
    using assms(1,2) by (simp add: validatePin_def st assms(5,6) Let_def list_all_iff subset_iff)
  from a b show ?thesis ..
qed

lemma lower_ABC234: "toLowerCase_ascii ''ABC234'' = ''abc234''"
  by (simp add: toLowerCase_ascii_def code_unit_def char_of_nat_eq)

theorem lowercase_pin_rejected_by_isValid_witness:
  "length ''ABC234'' = PIN_LENGTH \<and> set ''ABC234'' \<subseteq> set PIN_CHARACTERS
   \<and> (\<exists>c\<in>set ''ABC234''. isLetter c)
   \<and> nfkc_ascii (toLowerCase_ascii ''ABC234'') = toLowerCase_ascii ''ABC234''
   \<and> toUpperCase_ascii (toLowerCase_ascii ''ABC234'') = ''ABC234''
   \<and> nfkc_ascii ''ABC234'' = ''ABC234''
   \<and> \<not> isValid nfkc_ascii (Some (toLowerCase_ascii ''ABC234''))
   \<and> validatePin toUpperCase_ascii nfkc_ascii (toLowerCase_ascii ''ABC234'')"
proof -
  have a: "length ''ABC234'' = PIN_LENGTH" by (simp add: PIN_LENGTH_def)
  have b: "set ''ABC234'' \<subseteq> set PIN_CHARACTERS" by (simp add: PIN_CHARACTERS_def)
  have c: "\<exists>c\<in>set ''ABC234''. isLetter c" by (simp add: isLetter_def code_unit_def)
  have d: "nfkc_ascii (toLowerCase_ascii ''ABC234'') = toLowerCase_ascii ''ABC234''"
    by (simp add: nfkc_ascii_def)
  have e: "toUpperCase_ascii (toLowerCase_ascii ''ABC234'') = ''ABC234''"
    by (simp add: lower_ABC234 toUpperCase_ascii_def code_unit_def char_of_nat_eq)
  have f: "nfkc_ascii ''ABC234'' = ''ABC234''" by (simp add: nfkc_ascii_def)
  show ?thesis
    using a b c d e f
      lowercase_pin_rejected_by_isValid
        [where s = "''ABC234''" and nfkc = nfkc_ascii and toUpperCase = toUpperCase_ascii,
         OF a b c d e f]
    by blast
qed

text \<open>
  C9 as stated fails twice: the string \<open>234567\<close> over the alphabet is its own lower-case
  rendition and \<open>isValid\<close> accepts it; and \<open>validatePin\<close> accepts \<open>abcdef\<close>, an input
  of lower-case letters.
\<close>

theorem lowercase_pin_counterexample:
  "toLowerCase_ascii ''234567'' = ''234567''
   \<and> isValid nfkc_ascii (Some (toLowerCase_ascii ''234567''))
   \<and> toLowerCase_ascii ''ABCDEF'' = ''abcdef''
   \<and> validatePin toUpperCase_ascii nfkc_ascii (toLowerCase_ascii ''ABCDEF'')"
  by (simp add: toLowerCase_ascii_def toUpperCase_ascii_def code_unit_def char_of_nat_eq isValid_def
      isBlank_def isWhitespace_def normalize_pin_def nfkc_ascii_def java_trim_def PIN_LENGTH_def
      isISOControl_def isSurrogate_def isLetter_def isLowerCase_def PIN_CHARACTERS_def
      validatePin_def js_trim_def js_isSpace_def Let_def)

end
